theory Spec2Isabelle
  imports Complex_Main "HOL-Library.Log_Nat"
begin

section \<open>Conventions of the embedding\<close>

text \<open>
  The program is Python over \<open>float\<close> and numpy arrays of \<open>float\<close>. Every
  \<open>raise ValueError(msg)\<close> of the source is the value \<open>Inl (ValueError msg)\<close> with the
  message of the source; a function that can raise returns \<open>py_error + 'a\<close>. The
  specification's error kinds (ConfigurationError, InvalidRangeError,
  InvalidPresetError, InvalidDistributionError) are all \<open>ValueError\<close> in the source and
  are told apart by their messages.

  Numbers are embedded as \<^typ>\<open>real\<close>, and \<open>float(x)\<close> of a number is the identity.
  In the cashflow model, the solver, the resolver, the weights and the evaluator the
  arithmetic is exact: rounding error, overflow, infinities and NaN are outside the
  model. The grid builder is different: its number of points is the floor of a
  quotient, which one unit in the last place of the quotient changes by one, so there
  every operation is rounded to double precision as the machine rounds it
  (\<open>float64\<close> below).
\<close>

datatype py_error = ValueError string | TypeError

section \<open>model.py: CashflowModel\<close>

record CashflowModel =
  operating_cost_ratio :: real
  interest_only :: bool

definition noi :: "CashflowModel \<Rightarrow> real \<Rightarrow> real \<Rightarrow> real" where
  "noi self gross_rent occupancy =
     (let c = operating_cost_ratio self in (1 - c) * gross_rent * occupancy)"

definition interest :: "CashflowModel \<Rightarrow> real \<Rightarrow> real \<Rightarrow> real" where
  "interest self rate debt = rate * debt"

definition net_cashflow :: "CashflowModel \<Rightarrow> real \<Rightarrow> real \<Rightarrow> real \<Rightarrow> real \<Rightarrow> real" where
  "net_cashflow self gross_rent occupancy rate debt =
     noi self gross_rent occupancy - interest self rate debt"

definition dscr :: "CashflowModel \<Rightarrow> real \<Rightarrow> real \<Rightarrow> real \<Rightarrow> real \<Rightarrow> py_error + real" where
  "dscr self gross_rent occupancy rate debt =
     (let n = noi self gross_rent occupancy;
          intr = interest self rate debt
      in if intr \<le> 0 then Inl (ValueError ''Interest must be > 0 (check rate/debt).'')
         else Inr (if n \<le> 0 then 0 else n / intr))"

section \<open>model.py: the analytical solver\<close>

text \<open>
  The parameters are, in the source's order, \<open>operating_cost_ratio\<close>, \<open>gross_yield\<close>,
  \<open>ltv\<close>, \<open>occupancy\<close> and \<open>min_dscr\<close>; the source renames them \<open>c\<close>, \<open>R\<close>, \<open>D\<close>,
  \<open>occ\<close> and \<open>m\<close> on entry.
\<close>

definition analytical_max_rate_for_dscr ::
  "real \<Rightarrow> real \<Rightarrow> real \<Rightarrow> real \<Rightarrow> real \<Rightarrow> py_error + real" where
  "analytical_max_rate_for_dscr c R D occ m =
     (if D \<le> 0 then Inl (ValueError ''ltv must be > 0'')
      else if m \<le> 0 then Inl (ValueError ''min_dscr must be > 0'')
      else Inr ((1 - c) * R * occ / (m * D)))"

definition analytical_break_even_shock_bp :: "real \<Rightarrow> real \<Rightarrow> real" where
  "analytical_break_even_shock_bp base_rate max_rate = 10000 * (max_rate - base_rate)"

section \<open>Double-precision arithmetic\<close>

text \<open>
  \<open>rint\<close> rounds to the nearest integer and a tie to the even one.
\<close>

definition rint :: "real \<Rightarrow> int" where
  "rint x =
     (let f = \<lfloor>x\<rfloor>; d = x - of_int f
      in if d < 1/2 then f
         else if 1/2 < d then f + 1
         else if even f then f else f + 1)"

text \<open>
  A binary64 number has a significand of 53 bits. For \<open>x \<noteq> 0\<close>, \<open>float_exponent x\<close>
  is the \<open>e\<close> with \<open>2^e \<le> |x| < 2^(e+1)\<close>, and \<open>float64 x\<close> is the multiple of
  \<open>2^(e-52)\<close> nearest to \<open>x\<close>, a tie going to the even multiple: the double that
  round-to-nearest-even gives for the exact result \<open>x\<close>. The exponent is not bounded,
  so overflow to infinity and the subnormal numbers (magnitudes above \<open>1.8e308\<close> or
  below \<open>2.3e-308\<close>) are outside the model.
\<close>

definition float_exponent :: "real \<Rightarrow> int" where
  "float_exponent x =
     (if 1 \<le> \<bar>x\<bar> then bitlen \<lfloor>\<bar>x\<bar>\<rfloor> - 1 else - bitlen (\<lceil>1 / \<bar>x\<bar>\<rceil> - 1))"

definition float64 :: "real \<Rightarrow> real" where
  "float64 x =
     (if x = 0 then 0
      else let u = 2 powi (float_exponent x - 52) in of_int (rint (x / u)) * u)"

definition add64 :: "real \<Rightarrow> real \<Rightarrow> real" where
  "add64 x y = float64 (x + y)"

definition sub64 :: "real \<Rightarrow> real \<Rightarrow> real" where
  "sub64 x y = float64 (x - y)"

definition mul64 :: "real \<Rightarrow> real \<Rightarrow> real" where
  "mul64 x y = float64 (x * y)"

definition div64 :: "real \<Rightarrow> real \<Rightarrow> real" where
  "div64 x y = float64 (x / y)"

section \<open>model.py: the grid builder\<close>

text \<open>
  \<open>np.arange(n, dtype=float)\<close> is \<open>0, 1, ..., n - 1\<close>, and is empty when \<open>n \<le> 0\<close>.
\<close>

definition np_arange :: "int \<Rightarrow> real list" where
  "np_arange n = (if n \<le> 0 then [] else map real [0..<nat n])"

text \<open>
  \<open>np.round(x, decimals)\<close> multiplies by the double \<open>10^decimals\<close>, applies \<open>rint\<close>
  and divides by the same double, each operation in double precision.
\<close>

definition np_round :: "real \<Rightarrow> nat \<Rightarrow> real" where
  "np_round x decimals =
     div64 (of_int (rint (mul64 x (float64 (10 ^ decimals))))) (float64 (10 ^ decimals))"

text \<open>
  The arguments of \<open>ltv_grid\<close> are doubles: a call with the literals \<open>0.5\<close>, \<open>0.8\<close>
  and \<open>0.05\<close> passes \<open>float64 (5/10)\<close>, \<open>float64 (8/10)\<close> and \<open>float64 (5/100)\<close>. The
  literal \<open>1e-12\<close> is the double nearest to \<open>1/10^12\<close>, and the elements of
  \<open>np.arange\<close> are exact.
\<close>

definition ltv_grid :: "real \<Rightarrow> real \<Rightarrow> real \<Rightarrow> py_error + real list" where
  "ltv_grid start stop step =
     (if step \<le> 0 then Inl (ValueError ''step must be > 0'')
      else
        let n = \<lfloor>add64 (div64 (sub64 stop start) step) (float64 (1 / 10 ^ 12))\<rfloor> + 1;
            grid = map (\<lambda>k. add64 start (mul64 step k)) (np_arange n)
        in Inr (map (\<lambda>x. np_round x 10) grid))"

section \<open>model.py: the yield and normalisation resolver\<close>

text \<open>
  A preset is a dictionary read from YAML. Its values are modelled as \<open>None\<close> or a
  number; \<open>float(None)\<close> raises \<open>TypeError\<close>.
\<close>

datatype pyval = PyNone | PyFloat real

type_synonym preset = "string \<rightharpoonup> pyval"

definition py_float :: "pyval \<Rightarrow> py_error + real" where
  "py_float v = (case v of PyNone \<Rightarrow> Inl TypeError | PyFloat x \<Rightarrow> Inr x)"

definition implied_gross_yield :: "preset \<Rightarrow> py_error + real" where
  "implied_gross_yield preset =
     (if preset ''gross_yield'' \<noteq> None \<and> preset ''gross_yield'' \<noteq> Some PyNone then
        (case py_float (the (preset ''gross_yield'')) of
           Inl e \<Rightarrow> Inl e
         | Inr gy \<Rightarrow>
             if gy \<le> 0 then Inl (ValueError ''gross_yield must be > 0'') else Inr gy)
      else if preset ''purchase_price_gbp'' \<noteq> None \<and> preset ''annual_rent_gbp'' \<noteq> None then
        (case py_float (the (preset ''purchase_price_gbp'')) of
           Inl e \<Rightarrow> Inl e
         | Inr price \<Rightarrow>
             (case py_float (the (preset ''annual_rent_gbp'')) of
                Inl e \<Rightarrow> Inl e
              | Inr rent \<Rightarrow>
                  if price \<le> 0 \<or> rent \<le> 0
                  then Inl (ValueError ''purchase_price_gbp and annual_rent_gbp must be > 0'')
                  else Inr (rent / price)))
      else Inl (ValueError
        ''Preset must define gross_yield or (purchase_price_gbp, annual_rent_gbp).''))"

definition normalised_rent_from_yield :: "real \<Rightarrow> real \<Rightarrow> real" where
  "normalised_rent_from_yield gross_yield price = gross_yield * price"

definition normalised_debt_from_ltv :: "real \<Rightarrow> real \<Rightarrow> py_error + real" where
  "normalised_debt_from_ltv ltv price =
     (if ltv \<le> 0 \<or> 1 \<le> ltv then Inl (ValueError ''ltv must be in (0, 1)'')
      else Inr (ltv * price))"

section \<open>model.py: normalising the weights of a distribution\<close>

text \<open>
  A numpy array is its shape and its elements in row-major order; \<open>ndim\<close> is the
  number of axes and \<open>size\<close> the number of elements. A one-dimensional array of the
  elements \<open>xs\<close> is \<open>array1 xs\<close>.
\<close>

datatype ndarray = NDArray (shape: "nat list") (data: "real list")

definition ndim :: "ndarray \<Rightarrow> nat" where
  "ndim a = length (shape a)"

definition np_size :: "ndarray \<Rightarrow> nat" where
  "np_size a = prod_list (shape a)"

definition well_formed :: "ndarray \<Rightarrow> bool" where
  "well_formed a = (length (data a) = np_size a)"

definition array1 :: "real list \<Rightarrow> ndarray" where
  "array1 xs = NDArray [length xs] xs"

definition normalise_weights :: "ndarray \<Rightarrow> ndarray \<Rightarrow> py_error + ndarray \<times> ndarray" where
  "normalise_weights values weights =
     (if ndim values \<noteq> 1 \<or> ndim weights \<noteq> 1 \<or> np_size values \<noteq> np_size weights
      then Inl (ValueError ''values and weights must be 1D arrays of equal length'')
      else if list_ex (\<lambda>w. w < 0) (data weights)
      then Inl (ValueError ''weights must be non-negative'')
      else
        let s = sum_list (data weights)
        in if s \<le> 0 then Inl (ValueError ''sum(weights) must be > 0'')
           else Inr (values, NDArray (shape weights) (map (\<lambda>w. w / s) (data weights))))"

section \<open>simulate.py: the distribution evaluator\<close>

text \<open>
  A \<open>for\<close> loop over a list whose body updates the loop's state and may raise: the
  first exception ends the loop and is the result.
\<close>

fun for_loop :: "('a \<Rightarrow> 's \<Rightarrow> py_error + 's) \<Rightarrow> 'a list \<Rightarrow> 's \<Rightarrow> py_error + 's" where
  "for_loop body [] s = Inr s"
| "for_loop body (x # xs) s =
     (case body x s of Inl e \<Rightarrow> Inl e | Inr s' \<Rightarrow> for_loop body xs s')"

text \<open>\<open>np.outer(a, b)[i, j]\<close> is \<open>a[i] * b[j]\<close>; the result is a list of rows.\<close>

definition np_outer :: "ndarray \<Rightarrow> ndarray \<Rightarrow> real list list" where
  "np_outer a b = map (\<lambda>x. map (\<lambda>y. x * y) (data b)) (data a)"

text \<open>
  Both arrays are one-dimensional once \<open>normalise_weights\<close> has returned, so iterating
  over one of them yields its elements.
\<close>

definition failure_probability_over_distribution ::
  "CashflowModel \<Rightarrow> real \<Rightarrow> real \<Rightarrow> real \<Rightarrow> ndarray \<Rightarrow> ndarray \<Rightarrow> ndarray \<Rightarrow> ndarray \<Rightarrow>
   real \<Rightarrow> real \<Rightarrow> py_error + real" where
  "failure_probability_over_distribution model gross_rent debt base_rate
       shock_bp_values shock_bp_weights occ_values occ_weights min_dscr min_cashflow =
     (case normalise_weights shock_bp_values shock_bp_weights of
        Inl e \<Rightarrow> Inl e
      | Inr (shock_bp_values', shock_bp_weights') \<Rightarrow>
     (case normalise_weights occ_values occ_weights of
        Inl e \<Rightarrow> Inl e
      | Inr (occ_values', occ_weights') \<Rightarrow>
          let joint_w = np_outer occ_weights' shock_bp_weights'
          in for_loop
               (\<lambda>(i, occ) fail_w.
                  for_loop
                    (\<lambda>(j, shock_bp) fail_w.
                       let rate = base_rate + shock_bp / 10000;
                           cf = net_cashflow model gross_rent occ rate debt
                       in case dscr model gross_rent occ rate debt of
                            Inl e \<Rightarrow> Inl e
                          | Inr ds \<Rightarrow>
                              let failed = (ds < min_dscr \<or> cf < min_cashflow)
                              in Inr (if failed then fail_w + joint_w ! i ! j else fail_w))
                    (enumerate 0 (data shock_bp_values')) fail_w)
               (enumerate 0 (data occ_values')) 0))"

section \<open>simulate.py: the sweep orchestrator\<close>

text \<open>
  \<open>main\<close> reads its configuration from YAML and the command line and writes a CSV
  file; the model starts from the values it reads (the record \<open>config\<close>, one field for
  each local variable of \<open>main\<close> that holds configuration, the preset already
  selected) and ends with the list of rows. The sweep bounds of the configuration are
  the doubles that \<open>float(...)\<close> of the YAML values gives. One row is a dictionary with
  fixed keys, here a record. \<open>np.inf\<close>, the start of a running minimum, is \<open>None\<close>.
\<close>

record config =
  cfg_c :: real
  cfg_base_rate :: real
  cfg_min_dscr :: real
  cfg_min_cf :: real
  cfg_max_fail_prob :: real
  cfg_stress_occ :: real
  cfg_stress_shock_bp :: real
  cfg_preset_name :: string
  cfg_preset :: preset
  cfg_sweep_start :: real
  cfg_sweep_stop :: real
  cfg_sweep_step :: real
  cfg_shock_bp_values :: ndarray
  cfg_shock_bp_weights :: ndarray
  cfg_occ_values :: ndarray
  cfg_occ_weights :: ndarray

record row =
  row_preset :: string
  row_gross_yield :: real
  row_base_rate :: real
  row_ltv :: real
  row_theta_rent_to_debt :: real
  row_stress_occ :: real
  row_stress_shock_bp :: real
  row_stress_rate :: real
  row_stress_cashflow :: real
  row_stress_dscr :: real
  row_worst_cashflow_on_support :: "real option"
  row_worst_dscr_on_support :: "real option"
  row_failure_probability :: real
  row_max_failure_probability :: real
  row_max_shock_bp_at_stress_occ_dscr1 :: real
  row_passes_stress :: bool
  row_passes_probability :: bool
  row_admissible :: bool

definition min_inf :: "real option \<Rightarrow> real \<Rightarrow> real option" where
  "min_inf worst x = (case worst of None \<Rightarrow> Some x | Some w \<Rightarrow> Some (min w x))"

definition worst_on_support ::
  "CashflowModel \<Rightarrow> real \<Rightarrow> real \<Rightarrow> real \<Rightarrow> ndarray \<Rightarrow> ndarray \<Rightarrow>
   py_error + real option \<times> real option" where
  "worst_on_support model R D base_rate occ_values shock_bp_values =
     for_loop
       (\<lambda>occ worst.
          for_loop
            (\<lambda>shock_bp (worst_cf, worst_dscr).
               let rate = base_rate + shock_bp / 10000;
                   cf = net_cashflow model R occ rate D
               in case dscr model R occ rate D of
                    Inl e \<Rightarrow> Inl e
                  | Inr ds \<Rightarrow> Inr (min_inf worst_cf cf, min_inf worst_dscr ds))
            (data shock_bp_values) worst)
       (data occ_values) (None, None)"

text \<open>
  The body of the loop over the grid. \<open>gross_yield / ltv\<close> is computed after
  \<open>normalised_debt_from_ltv\<close> has accepted \<open>ltv\<close>, so \<open>ltv\<close> is not zero there.
\<close>

definition sweep_row :: "config \<Rightarrow> real \<Rightarrow> real \<Rightarrow> py_error + row" where
  "sweep_row cfg gross_yield ltv =
     (let model = \<lparr>operating_cost_ratio = cfg_c cfg, interest_only = True\<rparr>;
          R = normalised_rent_from_yield gross_yield 1
      in case normalised_debt_from_ltv ltv 1 of
           Inl e \<Rightarrow> Inl e
         | Inr D \<Rightarrow>
      let stress_rate = cfg_base_rate cfg + cfg_stress_shock_bp cfg / 10000;
          stress_cf = net_cashflow model R (cfg_stress_occ cfg) stress_rate D
      in case dscr model R (cfg_stress_occ cfg) stress_rate D of
           Inl e \<Rightarrow> Inl e
         | Inr stress_dscr \<Rightarrow>
      let passes_stress = (cfg_min_cf cfg \<le> stress_cf \<and> cfg_min_dscr cfg \<le> stress_dscr)
      in case failure_probability_over_distribution model R D (cfg_base_rate cfg)
                (cfg_shock_bp_values cfg) (cfg_shock_bp_weights cfg)
                (cfg_occ_values cfg) (cfg_occ_weights cfg)
                (cfg_min_dscr cfg) (cfg_min_cf cfg) of
           Inl e \<Rightarrow> Inl e
         | Inr p_fail \<Rightarrow>
      let passes_prob = (p_fail \<le> cfg_max_fail_prob cfg)
      in case worst_on_support model R D (cfg_base_rate cfg)
                (cfg_occ_values cfg) (cfg_shock_bp_values cfg) of
           Inl e \<Rightarrow> Inl e
         | Inr (worst_cf, worst_dscr) \<Rightarrow>
      (case analytical_max_rate_for_dscr (cfg_c cfg) gross_yield ltv
                (cfg_stress_occ cfg) (cfg_min_dscr cfg) of
           Inl e \<Rightarrow> Inl e
         | Inr max_rate \<Rightarrow>
      let max_shock_bp = analytical_break_even_shock_bp (cfg_base_rate cfg) max_rate;
          admissible = (passes_stress \<and> passes_prob)
      in Inr \<lparr>row_preset = cfg_preset_name cfg,
              row_gross_yield = gross_yield,
              row_base_rate = cfg_base_rate cfg,
              row_ltv = ltv,
              row_theta_rent_to_debt = gross_yield / ltv,
              row_stress_occ = cfg_stress_occ cfg,
              row_stress_shock_bp = cfg_stress_shock_bp cfg,
              row_stress_rate = stress_rate,
              row_stress_cashflow = stress_cf,
              row_stress_dscr = stress_dscr,
              row_worst_cashflow_on_support = worst_cf,
              row_worst_dscr_on_support = worst_dscr,
              row_failure_probability = p_fail,
              row_max_failure_probability = cfg_max_fail_prob cfg,
              row_max_shock_bp_at_stress_occ_dscr1 = max_shock_bp,
              row_passes_stress = passes_stress,
              row_passes_probability = passes_prob,
              row_admissible = admissible\<rparr>))"

definition main :: "config \<Rightarrow> py_error + row list" where
  "main cfg =
     (case implied_gross_yield (cfg_preset cfg) of
        Inl e \<Rightarrow> Inl e
      | Inr gross_yield \<Rightarrow>
     (case ltv_grid (cfg_sweep_start cfg) (cfg_sweep_stop cfg) (cfg_sweep_step cfg) of
        Inl e \<Rightarrow> Inl e
      | Inr ltvs \<Rightarrow>
          for_loop
            (\<lambda>ltv rows.
               case sweep_row cfg gross_yield ltv of
                 Inl e \<Rightarrow> Inl e
               | Inr r \<Rightarrow> Inr (rows @ [r]))
            ltvs []))"

section \<open>The distribution evaluator in the words of the specification\<close>

text \<open>
  A valid marginal distribution: values and weights are one-dimensional arrays of
  equal size, the weights are non-negative and their sum is positive. The arrays hold
  as many elements as their shape says.
\<close>

definition valid_distribution :: "ndarray \<Rightarrow> ndarray \<Rightarrow> bool" where
  "valid_distribution values weights =
     (well_formed values \<and> well_formed weights \<and>
      ndim values = 1 \<and> ndim weights = 1 \<and> np_size values = np_size weights \<and>
      list_all (\<lambda>w. 0 \<le> w) (data weights) \<and> 0 < sum_list (data weights))"

definition renormalised :: "real list \<Rightarrow> real list" where
  "renormalised ws = map (\<lambda>w. w / sum_list ws) ws"

text \<open>
  A pair (occupancy, shock) has failed when, at the scenario rate
  \<open>base_rate + shock_bp / 10000\<close>, the DSCR of the cashflow model is below \<open>min_dscr\<close>
  or its net cashflow is below \<open>min_cashflow\<close>.
\<close>

definition pair_failed ::
  "CashflowModel \<Rightarrow> real \<Rightarrow> real \<Rightarrow> real \<Rightarrow> real \<Rightarrow> real \<Rightarrow> real \<Rightarrow> real \<Rightarrow> bool" where
  "pair_failed model gross_rent debt base_rate min_dscr min_cashflow occ shock_bp =
     (let rate = base_rate + shock_bp / 10000
      in (case dscr model gross_rent occ rate debt of
            Inl e \<Rightarrow> False
          | Inr ds \<Rightarrow> ds < min_dscr) \<or>
         net_cashflow model gross_rent occ rate debt < min_cashflow)"

text \<open>
  The joint support is the full Cartesian product of the two supports, each point
  with its renormalised marginal weight; the failure probability is the sum of the
  products of the two weights over the failed pairs.
\<close>

definition joint_support ::
  "real list \<Rightarrow> real list \<Rightarrow> real list \<Rightarrow> real list \<Rightarrow> ((real \<times> real) \<times> (real \<times> real)) list" where
  "joint_support occ_values occ_weights shock_bp_values shock_bp_weights =
     List.product (zip occ_values (renormalised occ_weights))
                  (zip shock_bp_values (renormalised shock_bp_weights))"

definition failed_mass ::
  "CashflowModel \<Rightarrow> real \<Rightarrow> real \<Rightarrow> real \<Rightarrow> real list \<Rightarrow> real list \<Rightarrow> real list \<Rightarrow> real list \<Rightarrow>
   real \<Rightarrow> real \<Rightarrow> real" where
  "failed_mass model gross_rent debt base_rate
       shock_bp_values shock_bp_weights occ_values occ_weights min_dscr min_cashflow =
     sum_list
       (map (\<lambda>((occ, p), (shock_bp, q)). p * q)
          (filter
             (\<lambda>((occ, p), (shock_bp, q)).
                pair_failed model gross_rent debt base_rate min_dscr min_cashflow occ shock_bp)
             (joint_support occ_values occ_weights shock_bp_values shock_bp_weights)))"

section \<open>An example configuration\<close>

text \<open>
  A sweep over the two LTVs \<open>0.5\<close> and \<open>0.625\<close> (exact doubles) with a two-by-two scenario
  distribution, and the two rows it produces.
\<close>

definition example_config :: config where
  "example_config =
     \<lparr>cfg_c = 3/10, cfg_base_rate = 5/100, cfg_min_dscr = 1, cfg_min_cf = 0,
      cfg_max_fail_prob = 1/10, cfg_stress_occ = 9/10, cfg_stress_shock_bp = 200,
      cfg_preset_name = ''example'', cfg_preset = [''gross_yield'' \<mapsto> PyFloat (7/100)],
      cfg_sweep_start = 1/2, cfg_sweep_stop = 5/8, cfg_sweep_step = 1/8,
      cfg_shock_bp_values = array1 [0, 200], cfg_shock_bp_weights = array1 [3, 1],
      cfg_occ_values = array1 [1, 8/10], cfg_occ_weights = array1 [1, 1]\<rparr>"

definition example_row_50 :: row where
  "example_row_50 =
     \<lparr>row_preset = ''example'', row_gross_yield = 7/100, row_base_rate = 5/100,
      row_ltv = 1/2, row_theta_rent_to_debt = 7/50, row_stress_occ = 9/10,
      row_stress_shock_bp = 200, row_stress_rate = 7/100,
      row_stress_cashflow = 91/10000, row_stress_dscr = 63/50,
      row_worst_cashflow_on_support = Some (21/5000),
      row_worst_dscr_on_support = Some (28/25),
      row_failure_probability = 0, row_max_failure_probability = 1/10,
      row_max_shock_bp_at_stress_occ_dscr1 = 382,
      row_passes_stress = True, row_passes_probability = True, row_admissible = True\<rparr>"

definition example_row_625 :: row where
  "example_row_625 =
     \<lparr>row_preset = ''example'', row_gross_yield = 7/100, row_base_rate = 5/100,
      row_ltv = 5/8, row_theta_rent_to_debt = 14/125, row_stress_occ = 9/10,
      row_stress_shock_bp = 200, row_stress_rate = 7/100,
      row_stress_cashflow = 7/20000, row_stress_dscr = 126/125,
      row_worst_cashflow_on_support = Some (- (91/20000)),
      row_worst_dscr_on_support = Some (112/125),
      row_failure_probability = 1/8, row_max_failure_probability = 1/10,
      row_max_shock_bp_at_stress_occ_dscr1 = 1028/5,
      row_passes_stress = True, row_passes_probability = False, row_admissible = False\<rparr>"

section \<open>Properties of the cashflow model and the solver\<close>

text \<open>
  Claim C1. The analytical solver inverts the DSCR of the cashflow model: for a cost
  ratio \<open>c < 1\<close>, gross yield \<open>R > 0\<close>, occupancy \<open>occ > 0\<close>, LTV \<open>D > 0\<close> and
  \<open>m > 0\<close>, the solver returns a rate \<open>r\<close>, and the model's DSCR at gross rent \<open>R\<close>,
  occupancy \<open>occ\<close>, rate \<open>r\<close> and debt \<open>D\<close> is exactly \<open>m\<close>.
\<close>

theorem analytical_max_rate_inverts_dscr:
  assumes "c < 1" "0 < R" "0 < occ" "0 < D" "0 < m"
  shows "\<exists>r. analytical_max_rate_for_dscr c R D occ m = Inr r \<and>
             dscr \<lparr>operating_cost_ratio = c, interest_only = io\<rparr> R occ r D = Inr m"
proof -
  let ?n = "(1 - c) * R * occ"
  let ?r = "?n / (m * D)"
  have n: "0 < ?n" using assms by simp
  have solver: "analytical_max_rate_for_dscr c R D occ m = Inr ?r"
    using assms by (simp add: analytical_max_rate_for_dscr_def)
  have intr: "?r * D = ?n / m" using assms by (simp add: field_simps)
  have intr_pos: "0 < ?n / m" using n assms by simp
  have ratio: "?n / (?n / m) = m" using n assms by simp
  have "dscr \<lparr>operating_cost_ratio = c, interest_only = io\<rparr> R occ ?r D = Inr m"
    unfolding dscr_def noi_def interest_def Let_def
    using n intr intr_pos ratio by (simp add: not_le)
  with solver show ?thesis by blast
qed

theorem analytical_max_rate_inverts_dscr_witness:
  "(3/10 :: real) < 1 \<and> (0::real) < 7/100 \<and> (0::real) < 9/10 \<and> (0::real) < 7/10 \<and> (0::real) < 1 \<and>
   analytical_max_rate_for_dscr (3/10) (7/100) (7/10) (9/10) 1 = Inr (63/1000) \<and>
   dscr \<lparr>operating_cost_ratio = 3/10, interest_only = True\<rparr> (7/100) (9/10) (63/1000) (7/10) = Inr 1"
  using analytical_max_rate_inverts_dscr [of "3/10" "7/100" "9/10" "7/10" 1 True]
  by (simp add: analytical_max_rate_for_dscr_def dscr_def noi_def interest_def)

text \<open>
  Claim C2. \<open>dscr\<close> raises exactly when the interest \<open>rate * debt\<close> is not positive,
  and then with the message of the configuration error; otherwise it returns \<open>0\<close> when
  the net operating income \<open>(1 - c) * gross_rent * occupancy\<close> is not positive, and the
  ratio of net operating income to interest when it is positive.
\<close>

theorem dscr_cases:
  "((\<exists>e. dscr self gross_rent occupancy rate debt = Inl e) \<longleftrightarrow> rate * debt \<le> 0) \<and>
   (rate * debt \<le> 0 \<longrightarrow>
      dscr self gross_rent occupancy rate debt =
        Inl (ValueError ''Interest must be > 0 (check rate/debt).'')) \<and>
   (0 < rate * debt \<and> (1 - operating_cost_ratio self) * gross_rent * occupancy \<le> 0 \<longrightarrow>
      dscr self gross_rent occupancy rate debt = Inr 0) \<and>
   (0 < rate * debt \<and> 0 < (1 - operating_cost_ratio self) * gross_rent * occupancy \<longrightarrow>
      dscr self gross_rent occupancy rate debt =
        Inr ((1 - operating_cost_ratio self) * gross_rent * occupancy / (rate * debt)))"
  by (simp add: dscr_def noi_def interest_def Let_def not_le)

theorem dscr_cases_witness:
  "dscr \<lparr>operating_cost_ratio = 3/10, interest_only = True\<rparr> (7/100) (9/10) 0 (7/10) =
     Inl (ValueError ''Interest must be > 0 (check rate/debt).'') \<and>
   dscr \<lparr>operating_cost_ratio = 3/10, interest_only = True\<rparr> (7/100) 0 (5/100) (7/10) = Inr 0 \<and>
   dscr \<lparr>operating_cost_ratio = 13/10, interest_only = True\<rparr> (7/100) (9/10) (5/100) (7/10) = Inr 0 \<and>
   dscr \<lparr>operating_cost_ratio = 3/10, interest_only = True\<rparr> (7/100) (9/10) (5/100) (7/10) = Inr (63/50)"
  using dscr_cases [of "\<lparr>operating_cost_ratio = 3/10, interest_only = True\<rparr>" "7/100" "9/10" 0 "7/10"]
    dscr_cases [of "\<lparr>operating_cost_ratio = 3/10, interest_only = True\<rparr>" "7/100" 0 "5/100" "7/10"]
    dscr_cases [of "\<lparr>operating_cost_ratio = 13/10, interest_only = True\<rparr>" "7/100" "9/10" "5/100" "7/10"]
    dscr_cases [of "\<lparr>operating_cost_ratio = 3/10, interest_only = True\<rparr>" "7/100" "9/10" "5/100" "7/10"]
  by simp

text \<open>
  Claim C7, as stated, fails at occupancy \<open>0\<close>: the zero floor makes the DSCR \<open>0\<close> at
  every LTV, and the solver's maximal rate is \<open>0\<close> at every LTV, so neither falls when
  the LTV rises from \<open>0.5\<close> to \<open>0.7\<close>.
\<close>

theorem ltv_monotone_counterexample:
  "(3/10 :: real) < 1 \<and> (0::real) < 7/100 \<and> (0::real) < 1/2 \<and> (1/2 :: real) < 7/10 \<and>
   (7/10 :: real) < 1 \<and>
   dscr \<lparr>operating_cost_ratio = 3/10, interest_only = True\<rparr> (7/100) 0 (5/100) (1/2) = Inr 0 \<and>
   dscr \<lparr>operating_cost_ratio = 3/10, interest_only = True\<rparr> (7/100) 0 (5/100) (7/10) = Inr 0 \<and>
   analytical_max_rate_for_dscr (3/10) (7/100) (1/2) 0 1 = Inr 0 \<and>
   analytical_max_rate_for_dscr (3/10) (7/100) (7/10) 0 1 = Inr 0 \<and>
   analytical_break_even_shock_bp (5/100) 0 = - 500 \<and>
   \<not> analytical_break_even_shock_bp (5/100) 0 < analytical_break_even_shock_bp (5/100) 0"
  by (simp add: dscr_def noi_def interest_def analytical_max_rate_for_dscr_def
      analytical_break_even_shock_bp_def)

text \<open>
  Claim C7, amended. With cost ratio \<open>c < 1\<close>, gross yield \<open>R > 0\<close>, occupancy
  \<open>occ > 0\<close>, rate \<open>rate > 0\<close> and \<open>m > 0\<close> held fixed, and \<open>0 < ltv1 < ltv2\<close>: the
  DSCR is defined at both LTVs and strictly smaller at \<open>ltv2\<close>, and the maximal
  tolerable shock is defined at both and strictly smaller at \<open>ltv2\<close>, for every base
  rate.
\<close>

theorem ltv_monotone:
  assumes "c < 1" "0 < R" "0 < occ" "0 < rate" "0 < m" "0 < ltv1" "ltv1 < ltv2"
  shows "\<exists>d1 d2 r1 r2.
           dscr \<lparr>operating_cost_ratio = c, interest_only = io\<rparr> R occ rate ltv1 = Inr d1 \<and>
           dscr \<lparr>operating_cost_ratio = c, interest_only = io\<rparr> R occ rate ltv2 = Inr d2 \<and>
           d2 < d1 \<and>
           analytical_max_rate_for_dscr c R ltv1 occ m = Inr r1 \<and>
           analytical_max_rate_for_dscr c R ltv2 occ m = Inr r2 \<and>
           analytical_break_even_shock_bp base_rate r2 < analytical_break_even_shock_bp base_rate r1"
proof -
  let ?n = "(1 - c) * R * occ"
  have n: "0 < ?n" using assms by simp
  have pos2: "0 < ltv2" using assms by simp
  have d1: "dscr \<lparr>operating_cost_ratio = c, interest_only = io\<rparr> R occ rate ltv1 = Inr (?n / (rate * ltv1))"
    using n assms by (simp add: dscr_def noi_def interest_def Let_def not_le)
  have d2: "dscr \<lparr>operating_cost_ratio = c, interest_only = io\<rparr> R occ rate ltv2 = Inr (?n / (rate * ltv2))"
    using n assms pos2 by (simp add: dscr_def noi_def interest_def Let_def not_le)
  have lt_d: "?n / (rate * ltv2) < ?n / (rate * ltv1)"
    using n assms by (intro divide_strict_left_mono) simp_all
  have r1: "analytical_max_rate_for_dscr c R ltv1 occ m = Inr (?n / (m * ltv1))"
    using assms by (simp add: analytical_max_rate_for_dscr_def)
  have r2: "analytical_max_rate_for_dscr c R ltv2 occ m = Inr (?n / (m * ltv2))"
    using assms pos2 by (simp add: analytical_max_rate_for_dscr_def)
  have lt_r: "?n / (m * ltv2) < ?n / (m * ltv1)"
    using n assms by (intro divide_strict_left_mono) simp_all
  have lt_s: "analytical_break_even_shock_bp base_rate (?n / (m * ltv2))
                < analytical_break_even_shock_bp base_rate (?n / (m * ltv1))"
    using lt_r by (simp add: analytical_break_even_shock_bp_def)
  from d1 d2 lt_d r1 r2 lt_s show ?thesis by blast
qed

theorem ltv_monotone_witness:
  "(3/10 :: real) < 1 \<and> (0::real) < 7/100 \<and> (0::real) < 9/10 \<and> (0::real) < 5/100 \<and> (0::real) < 1 \<and>
   (0::real) < 1/2 \<and> (1/2 :: real) < 7/10 \<and>
   dscr \<lparr>operating_cost_ratio = 3/10, interest_only = True\<rparr> (7/100) (9/10) (5/100) (1/2) =
     Inr (441/250) \<and>
   dscr \<lparr>operating_cost_ratio = 3/10, interest_only = True\<rparr> (7/100) (9/10) (5/100) (7/10) =
     Inr (63/50) \<and>
   (63/50 :: real) < 441/250 \<and>
   analytical_max_rate_for_dscr (3/10) (7/100) (1/2) (9/10) 1 = Inr (441/5000) \<and>
   analytical_max_rate_for_dscr (3/10) (7/100) (7/10) (9/10) 1 = Inr (63/1000) \<and>
   analytical_break_even_shock_bp (5/100) (63/1000) = 130 \<and>
   analytical_break_even_shock_bp (5/100) (441/5000) = 382 \<and>
   analytical_break_even_shock_bp (5/100) (63/1000) < analytical_break_even_shock_bp (5/100) (441/5000)"
  using ltv_monotone [of "3/10" "7/100" "9/10" "5/100" 1 "1/2" "7/10" True "5/100"]
  by (simp add: analytical_max_rate_for_dscr_def analytical_break_even_shock_bp_def
      dscr_def noi_def interest_def)

text \<open>
  Claim C9. \<open>analytical_break_even_shock_bp\<close> is \<open>10000 * (max_rate - base_rate)\<close>; a
  maximal rate below the base rate gives a negative shock, returned as it is.
\<close>

theorem break_even_shock_unclamped:
  "analytical_break_even_shock_bp base_rate max_rate = 10000 * (max_rate - base_rate) \<and>
   (max_rate < base_rate \<longrightarrow> analytical_break_even_shock_bp base_rate max_rate < 0)"
  by (simp add: analytical_break_even_shock_bp_def)

theorem break_even_shock_unclamped_witness:
  "analytical_break_even_shock_bp (5/100) (63/1000) = 130 \<and>
   (4/100 :: real) < 5/100 \<and> analytical_break_even_shock_bp (5/100) (4/100) = - 100"
  using break_even_shock_unclamped [of "5/100" "63/1000"] break_even_shock_unclamped [of "5/100" "4/100"]
  by simp

section \<open>Properties of double-precision rounding\<close>

lemma rint_of_int: "rint (of_int k) = k"
  by (simp add: rint_def)

lemma rint_mono:
  assumes "x \<le> y"
  shows "rint x \<le> rint y"
proof (cases "\<lfloor>x\<rfloor> = \<lfloor>y\<rfloor>")
  case True
  with assms show ?thesis unfolding rint_def Let_def by auto
next
  case False
  with assms have lt: "\<lfloor>x\<rfloor> + 1 \<le> \<lfloor>y\<rfloor>"
    using floor_mono [of x y] by linarith
  have "rint x \<le> \<lfloor>x\<rfloor> + 1" unfolding rint_def Let_def by auto
  moreover have "\<lfloor>y\<rfloor> \<le> rint y" unfolding rint_def Let_def by auto
  ultimately show ?thesis using lt by linarith
qed

lemma rint_minus: "rint (- x) = - rint x"
proof (cases "x = of_int \<lfloor>x\<rfloor>")
  case True
  then obtain k where "x = of_int k" ..
  then have "- x = of_int (- k)" by simp
  then show ?thesis using \<open>x = of_int k\<close> by (simp only: rint_of_int)
next
  case False
  then have fl: "\<lfloor>- x\<rfloor> = - \<lfloor>x\<rfloor> - 1"
    by (metis (no_types) ceiling_altdef ceiling_def add_diff_cancel_right' minus_diff_eq
        uminus_add_conv_diff)
  have lt: "of_int \<lfloor>x\<rfloor> < x" using False of_int_floor_le [of x] by linarith
  show ?thesis
    unfolding rint_def Let_def fl using lt by (auto; linarith)
qed

lemma float_exponent_lower:
  assumes "x \<noteq> 0"
  shows "2 powi float_exponent x \<le> \<bar>x\<bar>"
proof (cases "1 \<le> \<bar>x\<bar>")
  case True
  define n where "n = \<lfloor>\<bar>x\<bar>\<rfloor>"
  have n: "0 < n" using True by (simp add: n_def)
  have e: "float_exponent x = bitlen n - 1" using True by (simp add: float_exponent_def n_def)
  have b: "1 \<le> bitlen n" using n by (simp add: bitlen_alt_def)
  have "(2::int) ^ nat (bitlen n - 1) \<le> n" using bitlen_bounds [OF n] by simp
  then have "(2::real) ^ nat (bitlen n - 1) \<le> of_int n"
    by (metis of_int_le_iff of_int_numeral of_int_power)
  also have "\<dots> \<le> \<bar>x\<bar>" by (simp add: n_def)
  finally show ?thesis using b by (simp add: e power_int_nonneg_exp)
next
  case False
  define y where "y = 1 / \<bar>x\<bar>"
  define m where "m = \<lceil>y\<rceil> - 1"
  have x: "0 < \<bar>x\<bar>" using assms by simp
  have y: "1 < y" using False x by (simp add: y_def)
  have m: "0 < m" using y by (simp add: m_def)
  have e: "float_exponent x = - bitlen m" using False by (simp add: float_exponent_def m_def y_def)
  have "m < (2::int) ^ nat (bitlen m)" using bitlen_bounds [OF m] by simp
  then have "m + 1 \<le> (2::int) ^ nat (bitlen m)" by simp
  then have "(of_int (m + 1) :: real) \<le> 2 ^ nat (bitlen m)"
    by (metis of_int_le_iff of_int_numeral of_int_power)
  moreover have "y \<le> of_int (m + 1)" by (simp add: m_def)
  ultimately have "y \<le> 2 ^ nat (bitlen m)" by linarith
  then have "1 / 2 ^ nat (bitlen m) \<le> \<bar>x\<bar>"
    using x by (simp add: y_def field_simps)
  then show ?thesis
    using bitlen_nonneg [of m] by (simp add: e power_int_minus_divide power_int_nonneg_exp)
qed

lemma float_exponent_upper:
  assumes "x \<noteq> 0"
  shows "\<bar>x\<bar> < 2 powi (float_exponent x + 1)"
proof (cases "1 \<le> \<bar>x\<bar>")
  case True
  define n where "n = \<lfloor>\<bar>x\<bar>\<rfloor>"
  have n: "0 < n" using True by (simp add: n_def)
  have e: "float_exponent x = bitlen n - 1" using True by (simp add: float_exponent_def n_def)
  have "n < (2::int) ^ nat (bitlen n)" using bitlen_bounds [OF n] by simp
  then have "n + 1 \<le> (2::int) ^ nat (bitlen n)" by simp
  then have "(of_int (n + 1) :: real) \<le> 2 ^ nat (bitlen n)"
    by (metis of_int_le_iff of_int_numeral of_int_power)
  moreover have "\<bar>x\<bar> < of_int (n + 1)" by (simp add: n_def)
  ultimately have "\<bar>x\<bar> < 2 ^ nat (bitlen n)" by linarith
  then show ?thesis using bitlen_nonneg [of n] by (simp add: e power_int_nonneg_exp)
next
  case False
  define y where "y = 1 / \<bar>x\<bar>"
  define m where "m = \<lceil>y\<rceil> - 1"
  have x: "0 < \<bar>x\<bar>" using assms by simp
  have y: "1 < y" using False x by (simp add: y_def)
  have m: "0 < m" using y by (simp add: m_def)
  have e: "float_exponent x = - bitlen m" using False by (simp add: float_exponent_def m_def y_def)
  have b: "1 \<le> bitlen m" using m by (simp add: bitlen_alt_def)
  have "(2::int) ^ nat (bitlen m - 1) \<le> m" using bitlen_bounds [OF m] by simp
  then have "(2::real) ^ nat (bitlen m - 1) \<le> of_int m"
    by (metis of_int_le_iff of_int_numeral of_int_power)
  moreover have "of_int m < y" by (simp add: m_def) linarith
  ultimately have lt: "2 ^ nat (bitlen m - 1) < y" by linarith
  have "\<bar>x\<bar> < 1 / 2 ^ nat (bitlen m - 1)"
    using lt x by (simp add: y_def field_simps)
  moreover have "(2::real) powi (- bitlen m + 1) = 1 / 2 ^ nat (bitlen m - 1)"
  proof -
    have "(2::real) powi (- bitlen m + 1) = 2 powi (- (bitlen m - 1))" by simp
    also have "\<dots> = 1 / 2 powi (bitlen m - 1)" by (rule power_int_minus_divide)
    also have "\<dots> = 1 / 2 ^ nat (bitlen m - 1)" using b by (simp add: power_int_nonneg_exp)
    finally show ?thesis .
  qed
  ultimately show ?thesis by (simp add: e)
qed

lemma float64_minus: "float64 (- x) = - float64 x"
  by (simp add: float64_def float_exponent_def Let_def rint_minus)

lemma float64_pos_bounds:
  assumes "0 < x"
  shows "2 powi float_exponent x \<le> float64 x" "float64 x \<le> 2 powi (float_exponent x + 1)"
proof -
  define e where "e = float_exponent x"
  define u :: real where "u = 2 powi (e - 52)"
  have u: "0 < u" by (simp add: u_def)
  have val: "float64 x = of_int (rint (x / u)) * u"
    using assms by (simp add: float64_def Let_def u_def e_def)
  have lo: "2 powi e \<le> x" using float_exponent_lower [of x] assms by (simp add: e_def)
  have hi: "x < 2 powi (e + 1)" using float_exponent_upper [of x] assms by (simp add: e_def)
  have pe: "(2::real) powi e = 2 ^ 52 * u"
    by (simp add: u_def power_int_diff)
  have pe1: "(2::real) powi (e + 1) = 2 ^ 53 * u"
    by (simp add: u_def power_int_diff power_int_add)
  have lo': "2 ^ 52 * u \<le> x" using lo unfolding pe .
  have "(2::real) ^ 52 \<le> x / u" using lo' u by (simp add: field_simps)
  then have "rint (of_int (2 ^ 52)) \<le> rint (x / u)" by (intro rint_mono) simp
  then have a: "(2::int) ^ 52 \<le> rint (x / u)" by (simp only: rint_of_int)
  have hi': "x < 2 ^ 53 * u" using hi unfolding pe1 .
  have "x / u \<le> 2 ^ 53" using hi' u by (simp add: field_simps)
  then have "rint (x / u) \<le> rint (of_int (2 ^ 53))" by (intro rint_mono) simp
  then have b: "rint (x / u) \<le> (2::int) ^ 53" by (simp only: rint_of_int)
  from a have "(2::real) ^ 52 \<le> of_int (rint (x / u))"
    by (metis of_int_le_iff of_int_numeral of_int_power)
  then have "2 ^ 52 * u \<le> of_int (rint (x / u)) * u" using u by simp
  then show "2 powi float_exponent x \<le> float64 x" by (simp add: val pe flip: e_def)
  from b have "(of_int (rint (x / u)) :: real) \<le> 2 ^ 53"
    by (metis of_int_le_iff of_int_numeral of_int_power)
  then have "of_int (rint (x / u)) * u \<le> 2 ^ 53 * u" using u by simp
  then show "float64 x \<le> 2 powi (float_exponent x + 1)" by (simp add: val pe1 flip: e_def)
qed

lemma float64_mono_pos:
  assumes "0 < x" "x \<le> y"
  shows "float64 x \<le> float64 y"
proof -
  have y: "0 < y" using assms by simp
  consider "float_exponent x = float_exponent y"
    | "float_exponent x + 1 \<le> float_exponent y"
    | "float_exponent y + 1 \<le> float_exponent x"
    by linarith
  then show ?thesis
  proof cases
    case 1
    define u :: real where "u = 2 powi (float_exponent y - 52)"
    have u: "0 < u" by (simp add: u_def)
    have "x / u \<le> y / u" using assms u by (simp add: divide_right_mono)
    then have "rint (x / u) \<le> rint (y / u)" by (rule rint_mono)
    then have "(of_int (rint (x / u)) :: real) * u \<le> of_int (rint (y / u)) * u"
      using u by simp
    then show ?thesis using assms y 1 by (simp add: float64_def Let_def u_def)
  next
    case 2
    have "float64 x \<le> 2 powi (float_exponent x + 1)"
      using assms(1) by (rule float64_pos_bounds)
    also have "\<dots> \<le> 2 powi float_exponent y"
      using 2 by (intro power_int_increasing) simp_all
    also have "\<dots> \<le> float64 y" using y by (rule float64_pos_bounds)
    finally show ?thesis .
  next
    case 3
    have "y < 2 powi (float_exponent y + 1)"
      using float_exponent_upper [of y] y by simp
    also have "\<dots> \<le> 2 powi float_exponent x"
      using 3 by (intro power_int_increasing) simp_all
    also have "\<dots> \<le> x" using float_exponent_lower [of x] assms(1) by simp
    finally show ?thesis using assms by simp
  qed
qed

lemma float64_nonneg: "0 \<le> x \<Longrightarrow> 0 \<le> float64 x"
proof (cases "x = 0")
  case True
  then show ?thesis by (simp add: float64_def)
next
  case False
  assume "0 \<le> x"
  with False have "0 < x" by simp
  then have "2 powi float_exponent x \<le> float64 x" by (rule float64_pos_bounds)
  moreover have "(0::real) < 2 powi float_exponent x" by simp
  ultimately show ?thesis by linarith
qed

lemma float64_mono:
  assumes "x \<le> y"
  shows "float64 x \<le> float64 y"
proof -
  consider "0 < x" | "x \<le> 0" "0 \<le> y" | "y < 0" by linarith
  then show ?thesis
  proof cases
    case 1
    then show ?thesis using assms by (rule float64_mono_pos)
  next
    case 2
    have "0 \<le> float64 (- x)" using 2(1) by (intro float64_nonneg) simp
    then have "float64 x \<le> 0" by (simp add: float64_minus)
    moreover have "0 \<le> float64 y" using 2(2) by (rule float64_nonneg)
    ultimately show ?thesis by linarith
  next
    case 3
    then have "0 < - y" "- y \<le> - x" using assms by simp_all
    then have "float64 (- y) \<le> float64 (- x)" by (rule float64_mono_pos)
    then show ?thesis by (simp add: float64_minus)
  qed
qed


section \<open>Properties of the grid builder\<close>

lemma np_round_mono:
  assumes "x \<le> y"
  shows "np_round x d \<le> np_round y d"
proof -
  define f where "f = float64 (10 ^ d)"
  have f: "0 \<le> f" unfolding f_def by (intro float64_nonneg) simp
  have "x * f \<le> y * f" using assms f by (rule mult_right_mono)
  then have "mul64 x f \<le> mul64 y f" unfolding mul64_def by (rule float64_mono)
  then have "rint (mul64 x f) \<le> rint (mul64 y f)" by (rule rint_mono)
  then have "(of_int (rint (mul64 x f)) :: real) \<le> of_int (rint (mul64 y f))" by simp
  then have "of_int (rint (mul64 x f)) / f \<le> of_int (rint (mul64 y f)) / f"
    using f by (rule divide_right_mono)
  then have "div64 (of_int (rint (mul64 x f))) f \<le> div64 (of_int (rint (mul64 y f))) f"
    unfolding div64_def by (rule float64_mono)
  then show ?thesis by (simp add: np_round_def f_def)
qed

lemma grid_point_mono:
  assumes "0 < step" "i \<le> j"
  shows "np_round (add64 start (mul64 step (real i))) 10
           \<le> np_round (add64 start (mul64 step (real j))) 10"
proof -
  have "step * real i \<le> step * real j" using assms by simp
  then have "mul64 step (real i) \<le> mul64 step (real j)"
    unfolding mul64_def by (rule float64_mono)
  then have "start + mul64 step (real i) \<le> start + mul64 step (real j)" by simp
  then have "add64 start (mul64 step (real i)) \<le> add64 start (mul64 step (real j))"
    unfolding add64_def by (rule float64_mono)
  then show ?thesis by (rule np_round_mono)
qed

lemma ltv_grid_value:
  assumes "0 < step"
  shows "ltv_grid start stop step =
           Inr (map (\<lambda>k. np_round (add64 start (mul64 step (real k))) 10)
                  [0..<nat (\<lfloor>add64 (div64 (sub64 stop start) step)
                                (float64 (1 / 10 ^ 12))\<rfloor> + 1)])"
  using assms by (simp add: ltv_grid_def np_arange_def Let_def comp_def)

lemmas float64_eval =
  float64_def float_exponent_def rint_def Let_def compute_bitlen power_int_minus
  add64_def sub64_def mul64_def div64_def

lemma double_literals:
  "float64 (50/100) = 1/2"
  "float64 (55/100) = 2476979795053773 / 4503599627370496"
  "float64 (60/100) = 5404319552844595 / 9007199254740992"
  "float64 (65/100) = 5854679515581645 / 9007199254740992"
  "float64 (70/100) = 3152519739159347 / 4503599627370496"
  "float64 (75/100) = 3/4"
  "float64 (80/100) = 3602879701896397 / 4503599627370496"
  "float64 (5/100) = 3602879701896397 / 72057594037927936"
  by (simp_all add: float64_eval)

lemma map_upto_seven:
  "map (\<lambda>k. F (real k)) [0..<nat 7] = [F 0, F 1, F 2, F 3, F 4, F 5, F 6]"
  by (simp add: upt_conv_Cons)

lemma seven_count:
  "\<lfloor>add64 (div64 (sub64 (3602879701896397 / 4503599627370496) (1/2))
                 (3602879701896397 / 72057594037927936))
           (float64 (1 / 10 ^ 12))\<rfloor> + 1 = 7"
  by (simp add: float64_eval)

lemma seven_points:
  "np_round (add64 (1/2) (mul64 (3602879701896397 / 72057594037927936) 0)) 10 = 1/2"
  "np_round (add64 (1/2) (mul64 (3602879701896397 / 72057594037927936) 1)) 10 =
     2476979795053773 / 4503599627370496"
  "np_round (add64 (1/2) (mul64 (3602879701896397 / 72057594037927936) 2)) 10 =
     5404319552844595 / 9007199254740992"
  "np_round (add64 (1/2) (mul64 (3602879701896397 / 72057594037927936) 3)) 10 =
     5854679515581645 / 9007199254740992"
  "np_round (add64 (1/2) (mul64 (3602879701896397 / 72057594037927936) 4)) 10 =
     3152519739159347 / 4503599627370496"
  "np_round (add64 (1/2) (mul64 (3602879701896397 / 72057594037927936) 5)) 10 = 3/4"
  "np_round (add64 (1/2) (mul64 (3602879701896397 / 72057594037927936) 6)) 10 =
     3602879701896397 / 4503599627370496"
  by (simp_all add: np_round_def float64_eval)

lemma ltv_grid_seven:
  "ltv_grid (float64 (50/100)) (float64 (80/100)) (float64 (5/100)) =
     Inr (map float64 [50/100, 55/100, 60/100, 65/100, 70/100, 75/100, 80/100])"
proof -
  have "(0::real) < 3602879701896397 / 72057594037927936" by simp
  then have "ltv_grid (1/2) (3602879701896397 / 4503599627370496)
               (3602879701896397 / 72057594037927936) =
             Inr (map (\<lambda>k. np_round (add64 (1/2)
                    (mul64 (3602879701896397 / 72057594037927936) (real k))) 10) [0..<nat 7])"
    by (simp only: ltv_grid_value seven_count)
  also have "\<dots> = Inr [1/2, 2476979795053773 / 4503599627370496,
      5404319552844595 / 9007199254740992, 5854679515581645 / 9007199254740992,
      3152519739159347 / 4503599627370496, 3/4, 3602879701896397 / 4503599627370496]"
    by (simp only: seven_points map_upto_seven
          [where F = "\<lambda>r. np_round (add64 (1/2)
                          (mul64 (3602879701896397 / 72057594037927936) r)) 10"])
  finally show ?thesis
    by (simp only: double_literals list.map)
qed

lemma descending_count:
  "\<lfloor>add64 (div64 (sub64 0 1) (1/2)) (float64 (1 / 10 ^ 12))\<rfloor> + 1 = - 1"
  by (simp add: float64_eval)

lemma fine_step_counts:
  "(0::real) < float64 (1/10000)"
  "\<lfloor>add64 (div64 (sub64 (float64 (57/100)) (float64 (56/100))) (float64 (1/10000)))
           (float64 (1 / 10 ^ 12))\<rfloor> + 1 = 100"
  "\<lfloor>add64 (div64 (sub64 (float64 (82/100)) (float64 (55/100))) (float64 (1/10000)))
           (float64 (1 / 10 ^ 12))\<rfloor> + 1 = 2701"
  by (simp_all add: float64_eval)

lemma ltv_grid_descending: "ltv_grid 1 0 (1/2) = Inr []"
proof -
  have p: "(0::real) < 1/2" by simp
  have "ltv_grid 1 0 (1/2) =
          Inr (map (\<lambda>k. np_round (add64 1 (mul64 (1/2) (real k))) 10) [0..<nat (- 1)])"
    using ltv_grid_value [OF p, of 1 0] unfolding descending_count .
  then show ?thesis by simp
qed

text \<open>
  Claim C5, as stated, fails where the count \<open>floor((stop - start) / step + 1e-12) + 1\<close>
  is negative: \<open>ltv_grid(1, 0, 0.5)\<close> has the count \<open>-1\<close> and returns the empty
  grid, whose length is \<open>0\<close>.
\<close>

theorem ltv_grid_counterexample:
  "(0::real) < 1/2 \<and> ltv_grid 1 0 (1/2) = Inr [] \<and>
   \<lfloor>add64 (div64 (sub64 0 1) (1/2)) (float64 (1 / 10 ^ 12))\<rfloor> + 1 = - 1 \<and>
   int (length ([] :: real list)) \<noteq>
     \<lfloor>add64 (div64 (sub64 0 1) (1/2)) (float64 (1 / 10 ^ 12))\<rfloor> + 1"
  unfolding descending_count using ltv_grid_descending by simp

text \<open>
  Claim C5, amended. With \<open>step \<le> 0\<close>, \<open>ltv_grid\<close> raises the range error. With
  \<open>step > 0\<close> it returns a grid of exactly
  \<open>max(0, floor((stop - start) / step + 1e-12) + 1)\<close> values, the count being computed
  in double precision as the source computes it; the \<open>k\<close>-th value is
  \<open>start + step * k\<close>, computed in double precision and rounded to 10 decimal
  places by \<open>np.round\<close>; the grid is in ascending order: no value is below an earlier
  one. For the doubles that the literals \<open>0.5\<close>, \<open>0.8\<close> and \<open>0.05\<close> denote, the grid is
  the seven doubles that the literals \<open>0.50, 0.55, ..., 0.80\<close> denote.
\<close>

theorem ltv_grid_contract:
  "(step \<le> 0 \<longrightarrow> ltv_grid start stop step = Inl (ValueError ''step must be > 0'')) \<and>
   (0 < step \<longrightarrow>
      (\<exists>grid. ltv_grid start stop step = Inr grid \<and>
         int (length grid) =
           max 0 (\<lfloor>add64 (div64 (sub64 stop start) step) (float64 (1 / 10 ^ 12))\<rfloor> + 1) \<and>
         (\<forall>k < length grid. grid ! k = np_round (add64 start (mul64 step (real k))) 10) \<and>
         sorted grid)) \<and>
   ltv_grid (float64 (50/100)) (float64 (80/100)) (float64 (5/100)) =
     Inr (map float64 [50/100, 55/100, 60/100, 65/100, 70/100, 75/100, 80/100])"
proof -
  let ?n = "\<lfloor>add64 (div64 (sub64 stop start) step) (float64 (1 / 10 ^ 12))\<rfloor> + 1"
  let ?grid = "map (\<lambda>k. np_round (add64 start (mul64 step (real k))) 10) [0..<nat ?n]"
  have bad: "ltv_grid start stop step = Inl (ValueError ''step must be > 0'')" if "step \<le> 0"
    using that by (simp add: ltv_grid_def)
  have good: "\<exists>grid. ltv_grid start stop step = Inr grid \<and>
         int (length grid) = max 0 ?n \<and>
         (\<forall>k < length grid. grid ! k = np_round (add64 start (mul64 step (real k))) 10) \<and>
         sorted grid" if step: "0 < step"
  proof -
    have val: "ltv_grid start stop step = Inr ?grid" using step by (rule ltv_grid_value)
    have len: "int (length ?grid) = max 0 ?n" by simp
    have nth: "\<forall>k < length ?grid. ?grid ! k = np_round (add64 start (mul64 step (real k))) 10"
      by simp
    have srt: "sorted ?grid"
    proof (unfold sorted_iff_nth_mono, intro allI impI)
      fix i j assume ij: "i \<le> j" "j < length ?grid"
      have "np_round (add64 start (mul64 step (real i))) 10
              \<le> np_round (add64 start (mul64 step (real j))) 10"
        using step ij(1) by (rule grid_point_mono)
      then show "?grid ! i \<le> ?grid ! j" using ij by simp
    qed
    from val len nth srt show ?thesis by blast
  qed
  from bad good ltv_grid_seven show ?thesis by blast
qed

theorem ltv_grid_contract_witness:
  "ltv_grid (1/2) (3/4) 0 = Inl (ValueError ''step must be > 0'') \<and>
   ltv_grid (float64 (50/100)) (float64 (80/100)) (float64 (5/100)) =
     Inr (map float64 [50/100, 55/100, 60/100, 65/100, 70/100, 75/100, 80/100]) \<and>
   (\<exists>grid. ltv_grid (float64 (56/100)) (float64 (57/100)) (float64 (1/10000)) = Inr grid \<and>
      int (length grid) = 100 \<and> sorted grid) \<and>
   (\<exists>grid. ltv_grid (float64 (55/100)) (float64 (82/100)) (float64 (1/10000)) = Inr grid \<and>
      int (length grid) = 2701 \<and> sorted grid) \<and>
   (\<exists>grid. ltv_grid 1 0 (1/2) = Inr grid \<and> int (length grid) = 0)"
proof -
  have a: "ltv_grid (1/2) (3/4) 0 = Inl (ValueError ''step must be > 0'')"
    using ltv_grid_contract [of 0 "1/2" "3/4"] by simp
  have b: "ltv_grid (float64 (50/100)) (float64 (80/100)) (float64 (5/100)) =
     Inr (map float64 [50/100, 55/100, 60/100, 65/100, 70/100, 75/100, 80/100])"
    using ltv_grid_contract [of 1 0 0] by blast
  have c: "\<exists>grid. ltv_grid (float64 (56/100)) (float64 (57/100)) (float64 (1/10000)) = Inr grid \<and>
      int (length grid) = 100 \<and> sorted grid"
    using ltv_grid_contract [of "float64 (1/10000)" "float64 (56/100)" "float64 (57/100)"]
      fine_step_counts(1)
    by (auto simp only: fine_step_counts(2) max_def split: if_splits)
  have d: "\<exists>grid. ltv_grid (float64 (55/100)) (float64 (82/100)) (float64 (1/10000)) = Inr grid \<and>
      int (length grid) = 2701 \<and> sorted grid"
    using ltv_grid_contract [of "float64 (1/10000)" "float64 (55/100)" "float64 (82/100)"]
      fine_step_counts(1)
    by (auto simp only: fine_step_counts(3) max_def split: if_splits)
  have e: "\<exists>grid. ltv_grid 1 0 (1/2) = Inr grid \<and> int (length grid) = 0"
    using ltv_grid_contract [of "1/2" 1 0] unfolding descending_count by auto
  from a b c d e show ?thesis by blast
qed

text \<open>
  Claim C10. With \<open>step > 0\<close> and a point count
  \<open>floor((stop - start) / step + 1e-12) + 1\<close>, computed in double precision as the
  source computes it, that is not positive, \<open>ltv_grid\<close> returns the empty grid and
  raises nothing.
\<close>

theorem ltv_grid_empty:
  assumes "0 < step"
    and "\<lfloor>add64 (div64 (sub64 stop start) step) (float64 (1 / 10 ^ 12))\<rfloor> + 1 \<le> 0"
  shows "ltv_grid start stop step = Inr []"
  using assms by (simp add: ltv_grid_def np_arange_def Let_def)

theorem ltv_grid_empty_witness:
  "(0::real) < 1/2 \<and>
   \<lfloor>add64 (div64 (sub64 0 1) (1/2)) (float64 (1 / 10 ^ 12))\<rfloor> + 1 \<le> 0 \<and>
   ltv_grid 1 0 (1/2) = Inr []"
proof -
  have c: "\<lfloor>add64 (div64 (sub64 0 1) (1/2)) (float64 (1 / 10 ^ 12))\<rfloor> + 1 \<le> 0"
    unfolding descending_count by simp
  have p: "(0::real) < 1/2" by simp
  from ltv_grid_empty [OF p c] p c show ?thesis by blast
qed

section \<open>Properties of the yield resolver\<close>

text \<open>
  Claim C6, as stated, fails for a preset whose explicit \<open>gross_yield\<close> is not
  positive and whose price and rent are positive: the source raises on the yield and
  never looks at the price and the rent.
\<close>

theorem implied_gross_yield_counterexample:
  "implied_gross_yield [''gross_yield'' \<mapsto> PyFloat 0, ''purchase_price_gbp'' \<mapsto> PyFloat 500000,
      ''annual_rent_gbp'' \<mapsto> PyFloat 30000] = Inl (ValueError ''gross_yield must be > 0'') \<and>
   implied_gross_yield [''gross_yield'' \<mapsto> PyFloat 0, ''purchase_price_gbp'' \<mapsto> PyFloat 500000,
      ''annual_rent_gbp'' \<mapsto> PyFloat 30000] \<noteq> Inr (30000 / 500000)"
  by (simp add: implied_gross_yield_def py_float_def)

text \<open>
  Claim C6, amended. A preset with an explicit (present and not \<open>None\<close>)
  \<open>gross_yield\<close> gives that value when it is positive and the preset error when it is
  not, whatever its price and rent. A preset without one (absent or \<open>None\<close>) that
  carries numbers for price and rent gives \<open>rent / price\<close> when both are positive and
  the preset error otherwise; when the price or the rent is absent it gives the
  preset error.
\<close>

theorem implied_gross_yield_cases:
  "(\<forall>g. preset ''gross_yield'' = Some (PyFloat g) \<longrightarrow>
        implied_gross_yield preset =
          (if 0 < g then Inr g else Inl (ValueError ''gross_yield must be > 0''))) \<and>
   (preset ''gross_yield'' = None \<or> preset ''gross_yield'' = Some PyNone \<longrightarrow>
      (\<forall>price rent.
          preset ''purchase_price_gbp'' = Some (PyFloat price) \<and>
          preset ''annual_rent_gbp'' = Some (PyFloat rent) \<longrightarrow>
          implied_gross_yield preset =
            (if 0 < price \<and> 0 < rent then Inr (rent / price)
             else Inl (ValueError ''purchase_price_gbp and annual_rent_gbp must be > 0''))) \<and>
      (preset ''purchase_price_gbp'' = None \<or> preset ''annual_rent_gbp'' = None \<longrightarrow>
          implied_gross_yield preset =
            Inl (ValueError
              ''Preset must define gross_yield or (purchase_price_gbp, annual_rent_gbp).'')))"
  by (auto simp add: implied_gross_yield_def py_float_def not_le not_less)

theorem implied_gross_yield_cases_witness:
  "implied_gross_yield [''gross_yield'' \<mapsto> PyFloat (6/100)] = Inr (6/100) \<and>
   implied_gross_yield [''gross_yield'' \<mapsto> PyFloat (- 1), ''purchase_price_gbp'' \<mapsto> PyFloat 500000,
      ''annual_rent_gbp'' \<mapsto> PyFloat 30000] = Inl (ValueError ''gross_yield must be > 0'') \<and>
   implied_gross_yield [''purchase_price_gbp'' \<mapsto> PyFloat 500000,
      ''annual_rent_gbp'' \<mapsto> PyFloat 30000] = Inr (6/100) \<and>
   implied_gross_yield [''gross_yield'' \<mapsto> PyNone, ''purchase_price_gbp'' \<mapsto> PyFloat 500000,
      ''annual_rent_gbp'' \<mapsto> PyFloat 0] =
     Inl (ValueError ''purchase_price_gbp and annual_rent_gbp must be > 0'') \<and>
   implied_gross_yield [''annual_rent_gbp'' \<mapsto> PyFloat 30000] =
     Inl (ValueError ''Preset must define gross_yield or (purchase_price_gbp, annual_rent_gbp).'')"
  using implied_gross_yield_cases [of "[''gross_yield'' \<mapsto> PyFloat (6/100)]"]
    implied_gross_yield_cases [of "[''gross_yield'' \<mapsto> PyFloat (- 1),
      ''purchase_price_gbp'' \<mapsto> PyFloat 500000, ''annual_rent_gbp'' \<mapsto> PyFloat 30000]"]
    implied_gross_yield_cases [of "[''purchase_price_gbp'' \<mapsto> PyFloat 500000,
      ''annual_rent_gbp'' \<mapsto> PyFloat 30000]"]
    implied_gross_yield_cases [of "[''gross_yield'' \<mapsto> PyNone,
      ''purchase_price_gbp'' \<mapsto> PyFloat 500000, ''annual_rent_gbp'' \<mapsto> PyFloat 0]"]
    implied_gross_yield_cases [of "[''annual_rent_gbp'' \<mapsto> PyFloat 30000]"]
  by simp

section \<open>Properties of the weights\<close>

lemma sum_list_nonneg_pos:
  fixes ws :: "real list"
  assumes "\<forall>w \<in> set ws. 0 \<le> w" "\<exists>w \<in> set ws. w \<noteq> 0"
  shows "0 < sum_list ws"
  using assms
proof (induction ws)
  case Nil
  then show ?case by simp
next
  case (Cons a ws)
  have rest: "0 \<le> sum_list ws" using Cons.prems(1) by (simp add: sum_list_nonneg)
  show ?case
  proof (cases "a = 0")
    case True
    with Cons show ?thesis by simp
  next
    case False
    with Cons.prems(1) have "0 < a" by simp
    with rest show ?thesis by simp
  qed
qed

lemma sum_list_divide_self:
  fixes ws :: "real list"
  assumes "sum_list ws \<noteq> 0"
  shows "sum_list (map (\<lambda>w. w / sum_list ws) ws) = 1"
proof -
  have "sum_list (map (\<lambda>w. w / c) ws) = sum_list ws / c" for c :: real
    by (induction ws) (simp_all add: add_divide_distrib)
  with assms show ?thesis by simp
qed

text \<open>
  Claim C8. \<open>normalise_weights\<close> raises (always a \<open>ValueError\<close>) exactly when the two
  arrays are not one-dimensional of equal size, or some weight is negative, or the
  weights sum to zero; and for one-dimensional arrays of equal size with non-negative
  weights that are not all zero it returns the values unchanged and weights that sum
  to \<open>1\<close>.
\<close>

theorem normalise_weights_contract:
  "((\<exists>msg. normalise_weights values weights = Inl (ValueError msg)) \<longleftrightarrow>
      \<not> (ndim values = 1 \<and> ndim weights = 1 \<and> np_size values = np_size weights) \<or>
      (\<exists>w \<in> set (data weights). w < 0) \<or>
      sum_list (data weights) = 0) \<and>
   normalise_weights values weights \<noteq> Inl TypeError \<and>
   (ndim values = 1 \<and> ndim weights = 1 \<and> np_size values = np_size weights \<and>
    (\<forall>w \<in> set (data weights). 0 \<le> w) \<and> (\<exists>w \<in> set (data weights). w \<noteq> 0) \<longrightarrow>
      (\<exists>weights'. normalise_weights values weights = Inr (values, weights') \<and>
                  shape weights' = shape weights \<and>
                  sum_list (data weights') = 1))"
proof -
  have nonneg: "0 \<le> sum_list (data weights)" if "\<not> (\<exists>w \<in> set (data weights). w < 0)"
    using that by (intro sum_list_nonneg) (auto simp: not_less)
  have raise: "(\<exists>msg. normalise_weights values weights = Inl (ValueError msg)) \<longleftrightarrow>
      \<not> (ndim values = 1 \<and> ndim weights = 1 \<and> np_size values = np_size weights) \<or>
      (\<exists>w \<in> set (data weights). w < 0) \<or>
      sum_list (data weights) = 0"
    using nonneg by (auto simp add: normalise_weights_def Let_def list_ex_iff)
  have no_type: "normalise_weights values weights \<noteq> Inl TypeError"
    by (simp add: normalise_weights_def Let_def)
  have ok: "\<exists>weights'. normalise_weights values weights = Inr (values, weights') \<and>
                  shape weights' = shape weights \<and> sum_list (data weights') = 1"
    if "ndim values = 1 \<and> ndim weights = 1 \<and> np_size values = np_size weights \<and>
        (\<forall>w \<in> set (data weights). 0 \<le> w) \<and> (\<exists>w \<in> set (data weights). w \<noteq> 0)"
  proof -
    have pos: "0 < sum_list (data weights)"
      using that by (intro sum_list_nonneg_pos) auto
    have noneg: "\<not> list_ex (\<lambda>w. w < 0) (data weights)"
      using that by (auto simp add: list_ex_iff not_less)
    have "normalise_weights values weights =
            Inr (values, NDArray (shape weights)
                   (map (\<lambda>w. w / sum_list (data weights)) (data weights)))"
      using that pos noneg by (simp add: normalise_weights_def Let_def not_le)
    moreover have "sum_list (map (\<lambda>w. w / sum_list (data weights)) (data weights)) = 1"
      using pos by (intro sum_list_divide_self) simp
    ultimately show ?thesis by simp
  qed
  from raise no_type ok show ?thesis by blast
qed

theorem normalise_weights_contract_witness:
  "normalise_weights (array1 [0, 200]) (array1 [3, 1]) = Inr (array1 [0, 200], array1 [3/4, 1/4]) \<and>
   sum_list (data (array1 [3/4, 1/4])) = 1 \<and>
   normalise_weights (array1 [0, 200]) (array1 [3, 1, 1]) =
     Inl (ValueError ''values and weights must be 1D arrays of equal length'') \<and>
   normalise_weights (NDArray [2, 1] [0, 200]) (NDArray [2, 1] [3, 1]) =
     Inl (ValueError ''values and weights must be 1D arrays of equal length'') \<and>
   normalise_weights (array1 [0, 200]) (array1 [3, - 1]) =
     Inl (ValueError ''weights must be non-negative'') \<and>
   normalise_weights (array1 [0, 200]) (array1 [0, 0]) =
     Inl (ValueError ''sum(weights) must be > 0'')"
  using normalise_weights_contract [of "array1 [0, 200]" "array1 [3, 1]"]
    normalise_weights_contract [of "array1 [0, 200]" "array1 [3, 1, 1]"]
    normalise_weights_contract [of "NDArray [2, 1] [0, 200]" "NDArray [2, 1] [3, 1]"]
    normalise_weights_contract [of "array1 [0, 200]" "array1 [3, - 1]"]
    normalise_weights_contract [of "array1 [0, 200]" "array1 [0, 0]"]
  by (simp add: normalise_weights_def array1_def ndim_def np_size_def)

section \<open>Properties of the distribution evaluator\<close>

lemma for_loop_accumulate:
  fixes g :: "'a \<Rightarrow> real"
  assumes "\<And>x s. x \<in> set xs \<Longrightarrow> body x s = (if ok x then Inr (s + g x) else Inl e)"
  shows "for_loop body xs s =
           (if list_all ok xs then Inr (s + sum_list (map g xs)) else Inl e)"
  using assms
proof (induction xs arbitrary: s)
  case Nil
  then show ?case by simp
next
  case (Cons x xs)
  have step: "body x s = (if ok x then Inr (s + g x) else Inl e)"
    using Cons.prems by simp
  have rest: "for_loop body xs t =
                (if list_all ok xs then Inr (t + sum_list (map g xs)) else Inl e)" for t
    using Cons.IH Cons.prems by simp
  show ?case using step rest by (simp add: add.assoc)
qed

lemma sum_list_product:
  fixes f :: "'a \<times> 'b \<Rightarrow> real"
  shows "sum_list (map f (List.product xs ys)) =
           sum_list (map (\<lambda>x. sum_list (map (\<lambda>y. f (x, y)) ys)) xs)"
  by (induction xs) (simp_all add: comp_def)

lemma valid_distribution_lengths:
  assumes "valid_distribution values weights"
  shows "length (data values) = length (data weights)" "data weights \<noteq> []" "data values \<noteq> []"
proof -
  show len: "length (data values) = length (data weights)"
    using assms by (simp add: valid_distribution_def well_formed_def)
  show ne: "data weights \<noteq> []"
    using assms by (auto simp add: valid_distribution_def)
  from len ne show "data values \<noteq> []" by auto
qed

lemma normalise_weights_valid:
  assumes "valid_distribution values weights"
  shows "normalise_weights values weights =
           Inr (values, NDArray (shape weights) (renormalised (data weights)))"
  using assms
  by (simp add: valid_distribution_def normalise_weights_def Let_def renormalised_def
      list_ex_iff list_all_iff not_le not_less)

lemma dscr_value:
  "dscr model gross_rent occ rate debt =
     (if 0 < rate * debt
      then Inr (if noi model gross_rent occ \<le> 0 then 0 else noi model gross_rent occ / (rate * debt))
      else Inl (ValueError ''Interest must be > 0 (check rate/debt).''))"
  by (simp add: dscr_def interest_def Let_def not_le)

lemma list_all_snd_enumerate:
  "list_all (\<lambda>x. P (snd x)) (enumerate n xs) = list_all P xs"
  by (induction xs arbitrary: n) simp_all

lemma list_all_const:
  "xs \<noteq> [] \<Longrightarrow> list_all (\<lambda>x. Q) xs = Q"
  by (cases xs) (auto simp add: list_all_iff)

lemma shock_loop:
  fixes joint_w :: "real list list"
  shows "for_loop
     (\<lambda>(j, shock_bp) fail_w.
        let rate = base_rate + shock_bp / 10000;
            cf = net_cashflow model gross_rent occ rate debt
        in case dscr model gross_rent occ rate debt of
             Inl e \<Rightarrow> Inl e
           | Inr ds \<Rightarrow>
               let failed = (ds < min_dscr \<or> cf < min_cashflow)
               in Inr (if failed then fail_w + joint_w ! i ! j else fail_w))
     (enumerate 0 sv) fail_w =
   (if list_all (\<lambda>shock_bp. 0 < (base_rate + shock_bp / 10000) * debt) sv
    then Inr (fail_w +
           sum_list (map (\<lambda>x. if pair_failed model gross_rent debt base_rate min_dscr min_cashflow
                                    occ (snd x)
                               then joint_w ! i ! fst x else 0) (enumerate 0 sv)))
    else Inl (ValueError ''Interest must be > 0 (check rate/debt).''))"
proof -
  have "for_loop
     (\<lambda>(j, shock_bp) fail_w.
        let rate = base_rate + shock_bp / 10000;
            cf = net_cashflow model gross_rent occ rate debt
        in case dscr model gross_rent occ rate debt of
             Inl e \<Rightarrow> Inl e
           | Inr ds \<Rightarrow>
               let failed = (ds < min_dscr \<or> cf < min_cashflow)
               in Inr (if failed then fail_w + joint_w ! i ! j else fail_w))
     (enumerate 0 sv) fail_w =
   (if list_all (\<lambda>x. 0 < (base_rate + snd x / 10000) * debt) (enumerate 0 sv)
    then Inr (fail_w +
           sum_list (map (\<lambda>x. if pair_failed model gross_rent debt base_rate min_dscr min_cashflow
                                    occ (snd x)
                               then joint_w ! i ! fst x else 0) (enumerate 0 sv)))
    else Inl (ValueError ''Interest must be > 0 (check rate/debt).''))"
    by (rule for_loop_accumulate
          [where ok = "\<lambda>x. 0 < (base_rate + snd x / 10000) * debt"
             and g = "\<lambda>x. if pair_failed model gross_rent debt base_rate min_dscr min_cashflow
                                  occ (snd x)
                             then joint_w ! i ! fst x else 0"
             and e = "ValueError ''Interest must be > 0 (check rate/debt).''"])
       (simp add: dscr_value pair_failed_def Let_def split_beta)
  then show ?thesis
    by (simp only: list_all_snd_enumerate
          [where P = "\<lambda>shock_bp. 0 < (base_rate + shock_bp / 10000) * debt"])
qed

lemma outer_row_sum:
  fixes ps qs :: "real list"
  assumes "i < length ps" "length sv = length qs"
  shows "sum_list (map (\<lambda>y. if F (snd y) then map (\<lambda>a. map (\<lambda>b. a * b) qs) ps ! i ! fst y else 0)
                     (enumerate 0 sv)) =
         sum_list (map (\<lambda>(s, q). if F s then ps ! i * q else 0) (zip sv qs))"
proof -
  have "map (\<lambda>y. if F (snd y) then map (\<lambda>a. map (\<lambda>b. a * b) qs) ps ! i ! fst y else 0)
            (enumerate 0 sv) =
        map (\<lambda>(s, q). if F s then ps ! i * q else 0) (zip sv qs)"
    using assms by (intro nth_equalityI) (simp_all add: nth_enumerate_eq)
  then show ?thesis by simp
qed

lemma joint_sum:
  fixes ps qs :: "real list"
  assumes "length ov = length ps" "length sv = length qs"
  shows "sum_list
           (map (\<lambda>x. sum_list
                        (map (\<lambda>y. if F (snd x) (snd y)
                                   then map (\<lambda>a. map (\<lambda>b. a * b) qs) ps ! fst x ! fst y else 0)
                           (enumerate 0 sv)))
              (enumerate 0 ov)) =
         sum_list
           (map (\<lambda>((occ, p), (s, q)). p * q)
              (filter (\<lambda>((occ, p), (s, q)). F occ s) (List.product (zip ov ps) (zip sv qs))))"
proof -
  have rows: "map (\<lambda>x. sum_list
                        (map (\<lambda>y. if F (snd x) (snd y)
                                   then map (\<lambda>a. map (\<lambda>b. a * b) qs) ps ! fst x ! fst y else 0)
                           (enumerate 0 sv)))
              (enumerate 0 ov) =
        map (\<lambda>(occ, p). sum_list (map (\<lambda>(s, q). if F occ s then p * q else 0) (zip sv qs)))
            (zip ov ps)"
  proof (intro nth_equalityI)
    show "length (map (\<lambda>x. sum_list
                        (map (\<lambda>y. if F (snd x) (snd y)
                                   then map (\<lambda>a. map (\<lambda>b. a * b) qs) ps ! fst x ! fst y else 0)
                           (enumerate 0 sv)))
              (enumerate 0 ov)) =
          length (map (\<lambda>(occ, p). sum_list (map (\<lambda>(s, q). if F occ s then p * q else 0) (zip sv qs)))
            (zip ov ps))"
      using assms by simp
  next
    fix i
    assume "i < length (map (\<lambda>x. sum_list
                        (map (\<lambda>y. if F (snd x) (snd y)
                                   then map (\<lambda>a. map (\<lambda>b. a * b) qs) ps ! fst x ! fst y else 0)
                           (enumerate 0 sv)))
              (enumerate 0 ov))"
    then have i: "i < length ps" "i < length ov" using assms by simp_all
    have "sum_list (map (\<lambda>y. if F (ov ! i) (snd y)
                              then map (\<lambda>a. map (\<lambda>b. a * b) qs) ps ! i ! fst y else 0)
                      (enumerate 0 sv)) =
          sum_list (map (\<lambda>(s, q). if F (ov ! i) s then ps ! i * q else 0) (zip sv qs))"
      using i(1) assms(2) by (rule outer_row_sum)
    then show "map (\<lambda>x. sum_list
                        (map (\<lambda>y. if F (snd x) (snd y)
                                   then map (\<lambda>a. map (\<lambda>b. a * b) qs) ps ! fst x ! fst y else 0)
                           (enumerate 0 sv)))
              (enumerate 0 ov) ! i =
        map (\<lambda>(occ, p). sum_list (map (\<lambda>(s, q). if F occ s then p * q else 0) (zip sv qs)))
            (zip ov ps) ! i"
      using i by (simp add: nth_enumerate_eq cong: if_cong)
  qed
  have "sum_list
           (map (\<lambda>((occ, p), (s, q)). p * q)
              (filter (\<lambda>((occ, p), (s, q)). F occ s) (List.product (zip ov ps) (zip sv qs)))) =
        sum_list
           (map (\<lambda>z. if (\<lambda>((occ, p), (s, q)). F occ s) z then (\<lambda>((occ, p), (s, q)). p * q) z else 0)
              (List.product (zip ov ps) (zip sv qs)))"
    by (rule sum_list_map_filter')
  also have "\<dots> =
        sum_list (map (\<lambda>x. sum_list
            (map (\<lambda>y. if (\<lambda>((occ, p), (s, q)). F occ s) (x, y)
                       then (\<lambda>((occ, p), (s, q)). p * q) (x, y) else 0) (zip sv qs))) (zip ov ps))"
    by (rule sum_list_product)
  also have "\<dots> =
        sum_list (map (\<lambda>(occ, p). sum_list (map (\<lambda>(s, q). if F occ s then p * q else 0) (zip sv qs)))
            (zip ov ps))"
    by (simp add: case_prod_unfold cong: if_cong)
  finally show ?thesis using rows by simp
qed

lemma occ_loop:
  fixes joint_w :: "real list list"
  shows "for_loop
     (\<lambda>(i, occ) fail_w.
        for_loop
          (\<lambda>(j, shock_bp) fail_w.
             let rate = base_rate + shock_bp / 10000;
                 cf = net_cashflow model gross_rent occ rate debt
             in case dscr model gross_rent occ rate debt of
                  Inl e \<Rightarrow> Inl e
                | Inr ds \<Rightarrow>
                    let failed = (ds < min_dscr \<or> cf < min_cashflow)
                    in Inr (if failed then fail_w + joint_w ! i ! j else fail_w))
          (enumerate 0 sv) fail_w)
     (enumerate 0 ov) fail_w =
   (if list_all (\<lambda>x. list_all (\<lambda>shock_bp. 0 < (base_rate + shock_bp / 10000) * debt) sv)
         (enumerate 0 ov)
    then Inr (fail_w +
           sum_list
             (map (\<lambda>x. sum_list
                          (map (\<lambda>y. if pair_failed model gross_rent debt base_rate min_dscr
                                          min_cashflow (snd x) (snd y)
                                     then joint_w ! fst x ! fst y else 0)
                             (enumerate 0 sv)))
                (enumerate 0 ov)))
    else Inl (ValueError ''Interest must be > 0 (check rate/debt).''))"
proof (rule for_loop_accumulate
          [where ok = "\<lambda>x. list_all (\<lambda>shock_bp. 0 < (base_rate + shock_bp / 10000) * debt) sv"
             and g = "\<lambda>x. sum_list
                          (map (\<lambda>y. if pair_failed model gross_rent debt base_rate min_dscr
                                          min_cashflow (snd x) (snd y)
                                     then joint_w ! fst x ! fst y else 0)
                             (enumerate 0 sv))"
             and e = "ValueError ''Interest must be > 0 (check rate/debt).''"])
  fix x :: "nat \<times> real" and s :: real
  obtain i occ where x: "x = (i, occ)" by (cases x)
  show "(case x of
           (i, occ) \<Rightarrow> \<lambda>fail_w.
             for_loop
               (\<lambda>(j, shock_bp) fail_w.
                  let rate = base_rate + shock_bp / 10000;
                      cf = net_cashflow model gross_rent occ rate debt
                  in case dscr model gross_rent occ rate debt of
                       Inl e \<Rightarrow> Inl e
                     | Inr ds \<Rightarrow>
                         let failed = (ds < min_dscr \<or> cf < min_cashflow)
                         in Inr (if failed then fail_w + joint_w ! i ! j else fail_w))
               (enumerate 0 sv) fail_w) s =
        (if list_all (\<lambda>shock_bp. 0 < (base_rate + shock_bp / 10000) * debt) sv
         then Inr (s + sum_list
                (map (\<lambda>y. if pair_failed model gross_rent debt base_rate min_dscr
                                 min_cashflow (snd x) (snd y)
                            then joint_w ! fst x ! fst y else 0)
                   (enumerate 0 sv)))
         else Inl (ValueError ''Interest must be > 0 (check rate/debt).''))"
    unfolding x by (simp only: prod.case fst_conv snd_conv shock_loop)
qed

lemma failure_probability_value:
  assumes "valid_distribution shock_bp_values shock_bp_weights"
    and "valid_distribution occ_values occ_weights"
  shows "failure_probability_over_distribution model gross_rent debt base_rate
           shock_bp_values shock_bp_weights occ_values occ_weights min_dscr min_cashflow =
         (if list_all (\<lambda>shock_bp. 0 < (base_rate + shock_bp / 10000) * debt)
               (data shock_bp_values)
          then Inr (failed_mass model gross_rent debt base_rate
                      (data shock_bp_values) (data shock_bp_weights)
                      (data occ_values) (data occ_weights) min_dscr min_cashflow)
          else Inl (ValueError ''Interest must be > 0 (check rate/debt).''))"
proof -
  let ?sv = "data shock_bp_values" and ?ov = "data occ_values"
  let ?qs = "renormalised (data shock_bp_weights)" and ?ps = "renormalised (data occ_weights)"
  let ?F = "pair_failed model gross_rent debt base_rate min_dscr min_cashflow"
  have ns: "normalise_weights shock_bp_values shock_bp_weights =
              Inr (shock_bp_values, NDArray (shape shock_bp_weights) ?qs)"
    using assms(1) by (rule normalise_weights_valid)
  have no: "normalise_weights occ_values occ_weights =
              Inr (occ_values, NDArray (shape occ_weights) ?ps)"
    using assms(2) by (rule normalise_weights_valid)
  have len_s: "length ?sv = length ?qs"
    using valid_distribution_lengths(1) [OF assms(1)] by (simp add: renormalised_def)
  have len_o: "length ?ov = length ?ps"
    using valid_distribution_lengths(1) [OF assms(2)] by (simp add: renormalised_def)
  have ne: "enumerate 0 ?ov \<noteq> []"
    using valid_distribution_lengths(3) [OF assms(2)] by (cases ?ov) simp_all
  have outer: "np_outer (NDArray (shape occ_weights) ?ps) (NDArray (shape shock_bp_weights) ?qs) =
                 map (\<lambda>a. map (\<lambda>b. a * b) ?qs) ?ps"
    by (simp add: np_outer_def)
  have sum: "sum_list
           (map (\<lambda>x. sum_list
                        (map (\<lambda>y. if ?F (snd x) (snd y)
                                   then map (\<lambda>a. map (\<lambda>b. a * b) ?qs) ?ps ! fst x ! fst y else 0)
                           (enumerate 0 ?sv)))
              (enumerate 0 ?ov)) =
         failed_mass model gross_rent debt base_rate
           ?sv (data shock_bp_weights) ?ov (data occ_weights) min_dscr min_cashflow"
    unfolding failed_mass_def joint_support_def
    using len_o len_s by (rule joint_sum)
  have "failure_probability_over_distribution model gross_rent debt base_rate
           shock_bp_values shock_bp_weights occ_values occ_weights min_dscr min_cashflow =
        (if list_all (\<lambda>x. list_all (\<lambda>shock_bp. 0 < (base_rate + shock_bp / 10000) * debt) ?sv)
              (enumerate 0 ?ov)
         then Inr (0 + sum_list
             (map (\<lambda>x. sum_list
                          (map (\<lambda>y. if ?F (snd x) (snd y)
                                     then map (\<lambda>a. map (\<lambda>b. a * b) ?qs) ?ps ! fst x ! fst y else 0)
                             (enumerate 0 ?sv)))
                (enumerate 0 ?ov)))
         else Inl (ValueError ''Interest must be > 0 (check rate/debt).''))"
    unfolding failure_probability_over_distribution_def
    by (simp only: ns no sum.case prod.case Let_def outer occ_loop [unfolded Let_def])
  then show ?thesis
    by (simp only: list_all_const [OF ne] sum add_0)
qed

lemma joint_support_length:
  assumes "valid_distribution shock_bp_values shock_bp_weights"
    and "valid_distribution occ_values occ_weights"
  shows "length (joint_support (data occ_values) (data occ_weights)
                   (data shock_bp_values) (data shock_bp_weights)) =
         np_size occ_values * np_size shock_bp_values"
  using assms
  by (simp add: joint_support_def renormalised_def valid_distribution_def well_formed_def)

text \<open>
  Claim C3, as stated, fails where a scenario of the product has no positive interest:
  with a base rate of \<open>5%\<close> and valid marginals whose shocks are \<open>0\<close> and \<open>-500\<close>
  basis points, the second scenario rate is \<open>0\<close>, \<open>dscr\<close> raises the configuration
  error there, and the evaluator raises it too and returns no probability.
\<close>

theorem failure_probability_counterexample:
  "valid_distribution (array1 [0, - 500]) (array1 [3, 1]) \<and>
   valid_distribution (array1 [1]) (array1 [1]) \<and>
   failure_probability_over_distribution \<lparr>operating_cost_ratio = 3/10, interest_only = True\<rparr>
       (7/100) (7/10) (5/100) (array1 [0, - 500]) (array1 [3, 1]) (array1 [1]) (array1 [1]) 1 0 =
     Inl (ValueError ''Interest must be > 0 (check rate/debt).'')"
  by (simp add: valid_distribution_def well_formed_def ndim_def np_size_def array1_def
      failure_probability_over_distribution_def normalise_weights_def np_outer_def
      enumerate_eq_zip upt_conv_Cons dscr_def noi_def interest_def net_cashflow_def)

text \<open>
  Claim C3, amended. For valid marginal distributions, when every scenario rate
  \<open>base_rate + shock_bp / 10000\<close> gives a positive interest \<open>rate * debt\<close>, the
  evaluator returns exactly the sum, over the full Cartesian product of the two
  supports, of the product of the renormalised marginal weights of the failed pairs
  (DSCR below \<open>min_dscr\<close> or net cashflow below \<open>min_cashflow\<close>); the product has one
  entry for each pair of an occupancy and a shock. When some scenario rate gives no
  positive interest, the evaluator raises the configuration error.
\<close>

theorem failure_probability_enumerates:
  assumes "valid_distribution shock_bp_values shock_bp_weights"
    and "valid_distribution occ_values occ_weights"
  shows "failure_probability_over_distribution model gross_rent debt base_rate
           shock_bp_values shock_bp_weights occ_values occ_weights min_dscr min_cashflow =
         (if list_all (\<lambda>shock_bp. 0 < (base_rate + shock_bp / 10000) * debt)
               (data shock_bp_values)
          then Inr (failed_mass model gross_rent debt base_rate
                      (data shock_bp_values) (data shock_bp_weights)
                      (data occ_values) (data occ_weights) min_dscr min_cashflow)
          else Inl (ValueError ''Interest must be > 0 (check rate/debt).'')) \<and>
         length (joint_support (data occ_values) (data occ_weights)
                   (data shock_bp_values) (data shock_bp_weights)) =
           np_size occ_values * np_size shock_bp_values"
  using failure_probability_value [OF assms] joint_support_length [OF assms] by simp

theorem failure_probability_enumerates_witness:
  "valid_distribution (array1 [0, 200]) (array1 [3, 1]) \<and>
   valid_distribution (array1 [1, 8/10]) (array1 [1, 1]) \<and>
   failure_probability_over_distribution \<lparr>operating_cost_ratio = 3/10, interest_only = True\<rparr>
       (7/100) (7/10) (5/100) (array1 [0, 200]) (array1 [3, 1]) (array1 [1, 8/10]) (array1 [1, 1])
       1 0 = Inr (1/8) \<and>
   failure_probability_over_distribution \<lparr>operating_cost_ratio = 3/10, interest_only = True\<rparr>
       (7/100) 0 (5/100) (array1 [0, 200]) (array1 [3, 1]) (array1 [1, 8/10]) (array1 [1, 1])
       1 0 = Inl (ValueError ''Interest must be > 0 (check rate/debt).'')"
proof -
  have v1: "valid_distribution (array1 [0, 200]) (array1 [3, 1])"
    by (simp add: valid_distribution_def well_formed_def ndim_def np_size_def array1_def)
  have v2: "valid_distribution (array1 [1, 8/10]) (array1 [1, 1])"
    by (simp add: valid_distribution_def well_formed_def ndim_def np_size_def array1_def)
  have mass: "failed_mass \<lparr>operating_cost_ratio = 3/10, interest_only = True\<rparr> (7/100) (7/10) (5/100)
                [0, 200] [3, 1] [1, 8/10] [1, 1] 1 0 = 1/8"
    by (simp add: failed_mass_def joint_support_def renormalised_def pair_failed_def
        dscr_def noi_def interest_def net_cashflow_def)
  have a: "failure_probability_over_distribution \<lparr>operating_cost_ratio = 3/10, interest_only = True\<rparr>
       (7/100) (7/10) (5/100) (array1 [0, 200]) (array1 [3, 1]) (array1 [1, 8/10]) (array1 [1, 1])
       1 0 = Inr (1/8)"
    using failure_probability_enumerates [OF v1 v2,
        of "\<lparr>operating_cost_ratio = 3/10, interest_only = True\<rparr>" "7/100" "7/10" "5/100" 1 0] mass
    by (simp add: array1_def)
  have b: "failure_probability_over_distribution \<lparr>operating_cost_ratio = 3/10, interest_only = True\<rparr>
       (7/100) 0 (5/100) (array1 [0, 200]) (array1 [3, 1]) (array1 [1, 8/10]) (array1 [1, 1])
       1 0 = Inl (ValueError ''Interest must be > 0 (check rate/debt).'')"
    using failure_probability_enumerates [OF v1 v2,
        of "\<lparr>operating_cost_ratio = 3/10, interest_only = True\<rparr>" "7/100" 0 "5/100" 1 0]
    by (simp add: array1_def)
  from v1 v2 a b show ?thesis by blast
qed

section \<open>Properties of the sweep orchestrator\<close>

lemma for_loop_rows:
  assumes "for_loop (\<lambda>x rows. case body x of Inl e \<Rightarrow> Inl e | Inr r \<Rightarrow> Inr (rows @ [r])) xs rows0
             = Inr rows"
    and "r \<in> set rows"
  shows "r \<in> set rows0 \<or> (\<exists>x \<in> set xs. body x = Inr r)"
  using assms
proof (induction xs arbitrary: rows0)
  case Nil
  then show ?case by simp
next
  case (Cons x xs)
  show ?case
  proof (cases "body x")
    case (Inl e)
    with Cons.prems show ?thesis by simp
  next
    case (Inr r')
    with Cons.prems have "for_loop (\<lambda>x rows. case body x of Inl e \<Rightarrow> Inl e | Inr r \<Rightarrow> Inr (rows @ [r]))
                            xs (rows0 @ [r']) = Inr rows"
      by simp
    from Cons.IH [OF this Cons.prems(2)] Inr show ?thesis by auto
  qed
qed

lemma sweep_row_flags:
  assumes "sweep_row cfg gross_yield ltv = Inr r"
  shows "(row_passes_stress r \<longleftrightarrow>
            cfg_min_cf cfg \<le> row_stress_cashflow r \<and> cfg_min_dscr cfg \<le> row_stress_dscr r) \<and>
         (row_passes_probability r \<longleftrightarrow> row_failure_probability r \<le> cfg_max_fail_prob cfg) \<and>
         (row_admissible r \<longleftrightarrow> row_passes_stress r \<and> row_passes_probability r) \<and>
         row_stress_cashflow r =
           net_cashflow \<lparr>operating_cost_ratio = cfg_c cfg, interest_only = True\<rparr>
             (row_gross_yield r) (cfg_stress_occ cfg)
             (cfg_base_rate cfg + cfg_stress_shock_bp cfg / 10000) (row_ltv r) \<and>
         dscr \<lparr>operating_cost_ratio = cfg_c cfg, interest_only = True\<rparr>
             (row_gross_yield r) (cfg_stress_occ cfg)
             (cfg_base_rate cfg + cfg_stress_shock_bp cfg / 10000) (row_ltv r) =
           Inr (row_stress_dscr r) \<and>
         failure_probability_over_distribution
             \<lparr>operating_cost_ratio = cfg_c cfg, interest_only = True\<rparr>
             (row_gross_yield r) (row_ltv r) (cfg_base_rate cfg)
             (cfg_shock_bp_values cfg) (cfg_shock_bp_weights cfg)
             (cfg_occ_values cfg) (cfg_occ_weights cfg) (cfg_min_dscr cfg) (cfg_min_cf cfg) =
           Inr (row_failure_probability r)"
  using assms
  by (auto simp add: sweep_row_def Let_def normalised_rent_from_yield_def
      normalised_debt_from_ltv_def split: sum.splits prod.splits if_splits)

text \<open>
  Claim C4. In every row the sweep produces, \<open>passes_stress\<close> holds exactly when the
  stress cashflow is at least \<open>min_cashflow\<close> and the stress DSCR at least \<open>min_dscr\<close>,
  \<open>passes_probability\<close> exactly when the failure probability is at most
  \<open>max_failure_probability\<close>, and \<open>admissible\<close> exactly when both hold. The stress
  cashflow and DSCR of the row are those of the cashflow model at the stress scenario
  (stress occupancy, base rate plus stress shock) for the row's yield and LTV, and its
  failure probability is that of the distribution evaluator.
\<close>

theorem sweep_flags:
  assumes "main cfg = Inr rows" and "r \<in> set rows"
  shows "(row_passes_stress r \<longleftrightarrow>
            cfg_min_cf cfg \<le> row_stress_cashflow r \<and> cfg_min_dscr cfg \<le> row_stress_dscr r) \<and>
         (row_passes_probability r \<longleftrightarrow> row_failure_probability r \<le> cfg_max_fail_prob cfg) \<and>
         (row_admissible r \<longleftrightarrow> row_passes_stress r \<and> row_passes_probability r) \<and>
         row_stress_cashflow r =
           net_cashflow \<lparr>operating_cost_ratio = cfg_c cfg, interest_only = True\<rparr>
             (row_gross_yield r) (cfg_stress_occ cfg)
             (cfg_base_rate cfg + cfg_stress_shock_bp cfg / 10000) (row_ltv r) \<and>
         dscr \<lparr>operating_cost_ratio = cfg_c cfg, interest_only = True\<rparr>
             (row_gross_yield r) (cfg_stress_occ cfg)
             (cfg_base_rate cfg + cfg_stress_shock_bp cfg / 10000) (row_ltv r) =
           Inr (row_stress_dscr r) \<and>
         failure_probability_over_distribution
             \<lparr>operating_cost_ratio = cfg_c cfg, interest_only = True\<rparr>
             (row_gross_yield r) (row_ltv r) (cfg_base_rate cfg)
             (cfg_shock_bp_values cfg) (cfg_shock_bp_weights cfg)
             (cfg_occ_values cfg) (cfg_occ_weights cfg) (cfg_min_dscr cfg) (cfg_min_cf cfg) =
           Inr (row_failure_probability r)"
proof -
  from assms(1) obtain gross_yield ltvs where
    loop: "for_loop (\<lambda>ltv rows. case sweep_row cfg gross_yield ltv of
                                  Inl e \<Rightarrow> Inl e | Inr r \<Rightarrow> Inr (rows @ [r])) ltvs [] = Inr rows"
    by (auto simp add: main_def split: sum.splits)
  from for_loop_rows [OF loop assms(2)] obtain ltv where "sweep_row cfg gross_yield ltv = Inr r"
    by auto
  then show ?thesis by (rule sweep_row_flags)
qed

lemma example_gross_yield: "implied_gross_yield (cfg_preset example_config) = Inr (7/100)"
  by (simp add: example_config_def implied_gross_yield_def py_float_def)

lemma example_count:
  "\<lfloor>add64 (div64 (sub64 (5/8) (1/2)) (1/8)) (float64 (1 / 10 ^ 12))\<rfloor> + 1 = 2"
  by (simp add: float64_eval)

lemma example_points:
  "np_round (add64 (1/2) (mul64 (1/8) 0)) 10 = 1/2"
  "np_round (add64 (1/2) (mul64 (1/8) 1)) 10 = 5/8"
  by (simp_all add: np_round_def float64_eval)

lemma example_grid:
  "ltv_grid (cfg_sweep_start example_config) (cfg_sweep_stop example_config)
     (cfg_sweep_step example_config) = Inr [1/2, 5/8]"
proof -
  have p: "(0::real) < 1/8" by simp
  have "ltv_grid (1/2) (5/8) (1/8) =
          Inr (map (\<lambda>k. np_round (add64 (1/2) (mul64 (1/8) (real k))) 10) [0..<nat 2])"
    using ltv_grid_value [OF p, of "1/2" "5/8"] unfolding example_count .
  also have "map (\<lambda>k. np_round (add64 (1/2) (mul64 (1/8) (real k))) 10) [0..<nat 2] =
               [np_round (add64 (1/2) (mul64 (1/8) 0)) 10,
                np_round (add64 (1/2) (mul64 (1/8) 1)) 10]"
    by (simp add: upt_conv_Cons)
  finally show ?thesis by (simp add: example_points example_config_def)
qed

lemma example_sweep_row_50: "sweep_row example_config (7/100) (1/2) = Inr example_row_50"
  by (simp add: example_config_def example_row_50_def sweep_row_def Let_def
      normalised_rent_from_yield_def normalised_debt_from_ltv_def worst_on_support_def
      min_inf_def array1_def failure_probability_over_distribution_def normalise_weights_def
      np_outer_def ndim_def np_size_def enumerate_eq_zip upt_conv_Cons
      analytical_max_rate_for_dscr_def analytical_break_even_shock_bp_def
      dscr_def noi_def interest_def net_cashflow_def)

lemma example_sweep_row_625: "sweep_row example_config (7/100) (5/8) = Inr example_row_625"
  by (simp add: example_config_def example_row_625_def sweep_row_def Let_def
      normalised_rent_from_yield_def normalised_debt_from_ltv_def worst_on_support_def
      min_inf_def array1_def failure_probability_over_distribution_def normalise_weights_def
      np_outer_def ndim_def np_size_def enumerate_eq_zip upt_conv_Cons
      analytical_max_rate_for_dscr_def analytical_break_even_shock_bp_def
      dscr_def noi_def interest_def net_cashflow_def)

lemma main_example: "main example_config = Inr [example_row_50, example_row_625]"
  unfolding main_def
  by (simp only: example_gross_yield example_grid sum.case for_loop.simps
      example_sweep_row_50 example_sweep_row_625 append.simps)

theorem sweep_flags_witness:
  "main example_config = Inr [example_row_50, example_row_625] \<and>
   example_row_50 \<in> set [example_row_50, example_row_625] \<and>
   example_row_625 \<in> set [example_row_50, example_row_625] \<and>
   row_passes_stress example_row_50 \<and> row_passes_probability example_row_50 \<and>
   row_admissible example_row_50 \<and>
   cfg_min_cf example_config \<le> row_stress_cashflow example_row_50 \<and>
   cfg_min_dscr example_config \<le> row_stress_dscr example_row_50 \<and>
   row_failure_probability example_row_50 \<le> cfg_max_fail_prob example_config \<and>
   row_passes_stress example_row_625 \<and> \<not> row_passes_probability example_row_625 \<and>
   \<not> row_admissible example_row_625 \<and>
   cfg_min_cf example_config \<le> row_stress_cashflow example_row_625 \<and>
   cfg_min_dscr example_config \<le> row_stress_dscr example_row_625 \<and>
   \<not> row_failure_probability example_row_625 \<le> cfg_max_fail_prob example_config"
proof -
  have in50: "example_row_50 \<in> set [example_row_50, example_row_625]" by simp
  have in625: "example_row_625 \<in> set [example_row_50, example_row_625]" by simp
  have flags: "row_passes_stress example_row_50" "row_passes_probability example_row_50"
    "row_passes_stress example_row_625" "\<not> row_passes_probability example_row_625"
    by (simp_all add: example_row_50_def example_row_625_def)
  from sweep_flags [OF main_example in50] sweep_flags [OF main_example in625]
    main_example in50 in625 flags
  show ?thesis by blast
qed

end
